theory Spec2Isabelle
  imports Main "HOL-Library.Word"
begin

section \<open>JavaScript values\<close>

text \<open>
  The repository is JavaScript. A \<^verbatim>\<open>Uint8Array\<close> is a list of bytes. A string is
  modelled by the character list of its UTF-8 encoding: every string operation of the
  sources (\<^verbatim>\<open>startsWith('0x')\<close>, \<^verbatim>\<open>slice\<close>, \<^verbatim>\<open>padStart\<close>, template literals) works on
  ASCII text or on an ASCII prefix, so \<^verbatim>\<open>utf8ToBytes\<close> is the bytewise conversion.
  Values whose type is not fixed by the code (the \<^verbatim>\<open>data\<close>, \<^verbatim>\<open>signature\<close> and
  \<^verbatim>\<open>publicKey\<close> arguments, the seed) are values of \<open>jsval\<close>. Numbers are integers here;
  functions, symbols and prototype-inherited properties are outside the model.
\<close>

type_synonym byte = "8 word"
type_synonym bytes = "byte list"

datatype jsval =
    JUndefined
  | JNull
  | JBool bool
  | JNum int
  | JStr string
  | JBytes bytes
  | JArr "jsval list"
  | JObj "(string \<times> jsval) list"

text \<open>Exceptions. \<open>Error m\<close> is \<^verbatim>\<open>new Error(m)\<close> thrown by the repository's own code,
  \<open>TypeError\<close> a property read on \<^verbatim>\<open>null\<close> or \<^verbatim>\<open>undefined\<close>, \<open>External f\<close> an
  exception raised inside the library call \<open>f\<close>, and \<open>InitFailed e\<close> the error
  \<^verbatim>\<open>new Error(`Failed to initialize DualSignatureProtocol: ${e.message}`)\<close>.\<close>

datatype js_error =
    Error string
  | TypeError
  | External string
  | InitFailed js_error

fun typeof :: "jsval \<Rightarrow> string" where
  "typeof JUndefined = ''undefined''"
| "typeof JNull = ''object''"
| "typeof (JBool b) = ''boolean''"
| "typeof (JNum n) = ''number''"
| "typeof (JStr s) = ''string''"
| "typeof (JBytes b) = ''object''"
| "typeof (JArr xs) = ''object''"
| "typeof (JObj kvs) = ''object''"

fun truthy :: "jsval \<Rightarrow> bool" where
  "truthy JUndefined = False"
| "truthy JNull = False"
| "truthy (JBool b) = b"
| "truthy (JNum n) = (n \<noteq> 0)"
| "truthy (JStr s) = (s \<noteq> [])"
| "truthy (JBytes b) = True"
| "truthy (JArr xs) = True"
| "truthy (JObj kvs) = True"

text \<open>\<^verbatim>\<open>v.name\<close>: a property read. It throws on \<^verbatim>\<open>null\<close> and \<^verbatim>\<open>undefined\<close>; the only
  built-in property the sources read from a value of unknown type is \<^verbatim>\<open>length\<close>.\<close>

fun get_prop :: "jsval \<Rightarrow> string \<Rightarrow> js_error + jsval" where
  "get_prop JUndefined k = Inl TypeError"
| "get_prop JNull k = Inl TypeError"
| "get_prop (JBool b) k = Inr JUndefined"
| "get_prop (JNum n) k = Inr JUndefined"
| "get_prop (JStr s) k = Inr (if k = ''length'' then JNum (int (length s)) else JUndefined)"
| "get_prop (JBytes b) k = Inr (if k = ''length'' then JNum (int (length b)) else JUndefined)"
| "get_prop (JArr xs) k = Inr (if k = ''length'' then JNum (int (length xs)) else JUndefined)"
| "get_prop (JObj kvs) k = Inr (case map_of kvs k of None \<Rightarrow> JUndefined | Some v \<Rightarrow> v)"

text \<open>Number to string in a template literal, and \<^verbatim>\<open>BigInt.toString(16)\<close>. A natural number
  of the model stands for a Number only when it is a safe integer, at most
  \<^verbatim>\<open>Number.MAX_SAFE_INTEGER\<close> (\<open>2^53 - 1\<close>): there the Number is that integer exactly and
  the template literal prints it in plain decimal, which is what \<open>dec\<close> computes. Larger
  Numbers are not all integers of their own, and from \<open>10^21\<close> on they print in exponent
  form (\<^verbatim>\<open>1e+21\<close>); \<open>dec\<close> says nothing about them, and a statement about the characters
  of a printed number is made for safe integers only.\<close>

definition safe_integer :: "nat \<Rightarrow> bool" where
  "safe_integer n = (n < 2 ^ 53)"

fun dec :: "nat \<Rightarrow> string" where
  "dec n = (if n < 10 then [''0123456789'' ! n]
            else dec (n div 10) @ [''0123456789'' ! (n mod 10)])"

fun hex_of_nat :: "nat \<Rightarrow> string" where
  "hex_of_nat n = (if n < 16 then [''0123456789abcdef'' ! n]
                   else hex_of_nat (n div 16) @ [''0123456789abcdef'' ! (n mod 16)])"

text \<open>Both functions are unfolded by hand only: as rewrite rules their equations would
  be applied to their own right-hand sides.\<close>

declare dec.simps [simp del]
declare hex_of_nat.simps [simp del]

definition padStart :: "nat \<Rightarrow> char \<Rightarrow> string \<Rightarrow> string" where
  "padStart n c s = replicate (n - length s) c @ s"

text \<open>\<^verbatim>\<open>bytesToHex\<close> and \<^verbatim>\<open>utf8ToBytes\<close> of \<^verbatim>\<open>@noble/hashes/utils\<close> on arguments of
  their declared types.\<close>

definition byte_hex :: "byte \<Rightarrow> string" where
  "byte_hex b = [''0123456789abcdef'' ! (unat b div 16), ''0123456789abcdef'' ! (unat b mod 16)]"

definition bytesToHex :: "bytes \<Rightarrow> string" where
  "bytesToHex bs = concat (map byte_hex bs)"

definition utf8ToBytes :: "string \<Rightarrow> bytes" where
  "utf8ToBytes s = map (\<lambda>c. of_nat (of_char c)) s"

text \<open>A method call \<^verbatim>\<open>x.m()\<close> through a reference that may be \<^verbatim>\<open>null\<close> or \<^verbatim>\<open>undefined\<close>: a
  \<open>TypeError\<close> when it is. \<^verbatim>\<open>fill\<close> overwrites every element of a typed array.\<close>

definition method_call :: "'s option \<Rightarrow> ('s \<Rightarrow> js_error + 'a) \<Rightarrow> js_error + 'a" where
  "method_call receiver m = (case receiver of None \<Rightarrow> Inl TypeError | Some s \<Rightarrow> m s)"

definition fill :: "byte \<Rightarrow> bytes \<Rightarrow> bytes" where
  "fill v b = replicate (length b) v"

section \<open>External primitives\<close>

text \<open>
  The cryptographic libraries are not part of the repository. They are parameters of the
  model: one record holds every library function the sources call. \<open>None\<close> is a raised
  exception. \<open>'k\<close> is the type of HD nodes (\<^verbatim>\<open>HDKey\<close> of \<^verbatim>\<open>@scure/bip32\<close>).
\<close>

record derived_node =
  dn_privateKey :: "bytes option"
  dn_publicKey :: "bytes option"
  dn_chainCode :: "bytes option"

record secp_signature =
  sg_r :: nat
  sg_s :: nat
  sg_recovery :: nat
  sg_compactHex :: string

record mldsa_lib =
  lib_sign :: "bytes \<Rightarrow> bytes option \<Rightarrow> bytes \<Rightarrow> bool \<Rightarrow> bytes option"
  lib_verify :: "jsval \<Rightarrow> bytes \<Rightarrow> jsval \<Rightarrow> bool option"

record 'k prims =
  mnemonicToSeed :: "string \<Rightarrow> bytes option"
  fromMasterSeed :: "bytes \<Rightarrow> 'k option"
  hd_derive :: "'k \<Rightarrow> string \<Rightarrow> derived_node option"
  sha256 :: "bytes \<Rightarrow> bytes"
  sha3_256 :: "bytes \<Rightarrow> bytes"
  keccak_256 :: "bytes \<Rightarrow> bytes"
  shake256 :: "bytes \<Rightarrow> nat \<Rightarrow> bytes"
  hexToBytes :: "string \<Rightarrow> bytes option"
  bytesToHex_of_string :: "string \<Rightarrow> string option"
  JSON_stringify :: "jsval \<Rightarrow> string option"
  ml_dsa65_keygen :: "(bytes \<Rightarrow> (bytes \<times> bytes) option) option"
  ml_dsa_65 :: "mldsa_lib option"
  secp_sign :: "bytes \<Rightarrow> bytes option \<Rightarrow> secp_signature option"
  secp_verify :: "jsval \<Rightarrow> bytes \<Rightarrow> jsval \<Rightarrow> bool option"
  point_toRawBytes :: "bytes \<Rightarrow> bool \<Rightarrow> bytes option"

section \<open>Dual key derivation (src/crypto/dual-key-derivation.js)\<close>

text \<open>\<^verbatim>\<open>DERIVATION_PATHS\<close>: the table of the two namespaces, read by key type.\<close>

record path_config =
  PURPOSE :: nat
  COIN_TYPE :: nat
  PREFIX :: string

definition DERIVATION_PATHS :: "(string \<times> path_config) list" where
  "DERIVATION_PATHS =
     [(''ECDSA'', \<lparr>PURPOSE = 44, COIN_TYPE = 60, PREFIX = ''m/44'/60'' @ [CHR 0x27]\<rparr>),
      (''MLDSA'', \<lparr>PURPOSE = 44, COIN_TYPE = 9000, PREFIX = ''m/44'/9000'' @ [CHR 0x27]\<rparr>)]"

record 'k DualKeyDerivation =
  kd_seed :: jsval
  kd_masterKey :: "'k option"
  kd_masterSeed :: "bytes option"
  kd_initialized :: bool

definition DualKeyDerivation_new :: "jsval \<Rightarrow> 'k DualKeyDerivation" where
  "DualKeyDerivation_new seed =
     \<lparr>kd_seed = seed, kd_masterKey = None, kd_masterSeed = None, kd_initialized = False\<rparr>"

text \<open>\<^verbatim>\<open>_initialize\<close>: nothing is assigned before the last library call has returned, so a
  failed initialization leaves the object as it was.\<close>

definition kd_initialize ::
  "'k prims \<Rightarrow> 'k DualKeyDerivation \<Rightarrow> (js_error + unit) \<times> 'k DualKeyDerivation" where
  "kd_initialize P d =
     (if kd_initialized d then (Inr (), d)
      else
        (case (case kd_seed d of
                 JStr m \<Rightarrow>
                   (case mnemonicToSeed P m of
                      None \<Rightarrow> Inl (External ''mnemonicToSeed'')
                    | Some b \<Rightarrow> Inr b)
               | JBytes b \<Rightarrow> Inr b
               | _ \<Rightarrow> Inl (Error ''Seed must be a BIP-39 mnemonic string or Uint8Array'')) of
           Inl e \<Rightarrow> (Inl e, d)
         | Inr masterSeed \<Rightarrow>
             (case fromMasterSeed P masterSeed of
                None \<Rightarrow> (Inl (External ''HDKey.fromMasterSeed''), d)
              | Some mk \<Rightarrow>
                  (Inr (), d\<lparr>kd_masterKey := Some mk, kd_masterSeed := Some masterSeed,
                              kd_initialized := True\<rparr>))))"

definition buildPath :: "string \<Rightarrow> nat \<Rightarrow> nat \<Rightarrow> js_error + string" where
  "buildPath type accountIndex addressIndex =
     (case map_of DERIVATION_PATHS type of
        None \<Rightarrow> Inl (Error (''Invalid key type: '' @ type))
      | Some pathConfig \<Rightarrow>
          Inr (PREFIX pathConfig @ ''/'' @ dec accountIndex @ [CHR 0x27] @ ''/0/''
               @ dec addressIndex))"

text \<open>\<^verbatim>\<open>this._masterKey.derive(path)\<close>.\<close>

definition masterKey_derive ::
  "'k prims \<Rightarrow> 'k DualKeyDerivation \<Rightarrow> string \<Rightarrow> js_error + derived_node" where
  "masterKey_derive P d path =
     (case kd_masterKey d of
        None \<Rightarrow> Inl TypeError
      | Some mk \<Rightarrow>
          (case hd_derive P mk path of
             None \<Rightarrow> Inl (External ''HDKey.derive'')
           | Some derived \<Rightarrow> Inr derived))"

record ecdsa_key =
  ek_privateKey :: bytes
  ek_publicKey :: "bytes option"
  ek_chainCode :: "bytes option"
  ek_path :: string
  ek_type :: string
  ek_curve :: string
  ek_accountIndex :: nat
  ek_addressIndex :: nat

definition deriveECDSAKey ::
  "'k prims \<Rightarrow> 'k DualKeyDerivation \<Rightarrow> nat \<Rightarrow> nat
     \<Rightarrow> (js_error + ecdsa_key) \<times> 'k DualKeyDerivation" where
  "deriveECDSAKey P d accountIndex addressIndex =
     (case kd_initialize P d of
        (Inl e, d') \<Rightarrow> (Inl e, d')
      | (Inr _, d') \<Rightarrow>
          (case buildPath ''ECDSA'' accountIndex addressIndex of
             Inl e \<Rightarrow> (Inl e, d')
           | Inr path \<Rightarrow>
               (case masterKey_derive P d' path of
                  Inl e \<Rightarrow> (Inl e, d')
                | Inr derived \<Rightarrow>
                    (case dn_privateKey derived of
                       None \<Rightarrow> (Inl (Error ''Failed to derive ECDSA private key''), d')
                     | Some pk \<Rightarrow>
                         (Inr \<lparr>ek_privateKey = pk, ek_publicKey = dn_publicKey derived,
                               ek_chainCode = dn_chainCode derived, ek_path = path,
                               ek_type = ''ECDSA'', ek_curve = ''secp256k1'',
                               ek_accountIndex = accountIndex,
                               ek_addressIndex = addressIndex\<rparr>, d')))))"

text \<open>\<^verbatim>\<open>_generateMLDSAFromSeed\<close>. The \<^verbatim>\<open>try\<close> block imports the key generator and runs it;
  the \<^verbatim>\<open>catch\<close> block computes two SHA-256 digests of the seed, which it never uses, and
  returns two freshly allocated (zero-filled) arrays.\<close>

record mldsa_generated =
  g_privateKey :: bytes
  g_publicKey :: bytes
  g_placeholder :: bool
  g_seed :: bytes

definition generateMLDSAFromSeed :: "'k prims \<Rightarrow> bytes \<Rightarrow> mldsa_generated" where
  "generateMLDSAFromSeed P seed =
     (let mldsaSeed = (if length seed = 32 then seed else take 32 seed) in
      case (case ml_dsa65_keygen P of None \<Rightarrow> None | Some keygen \<Rightarrow> keygen mldsaSeed) of
        Some (secretKey, publicKey) \<Rightarrow>
          \<lparr>g_privateKey = secretKey, g_publicKey = publicKey, g_placeholder = False,
           g_seed = mldsaSeed\<rparr>
      | None \<Rightarrow>
          (let expandedSeed = sha256 P (seed @ [0]);
               publicKeySeed = sha256 P (seed @ [1])
           in \<lparr>g_privateKey = replicate 4032 0, g_publicKey = replicate 1952 0,
               g_placeholder = True, g_seed = seed\<rparr>))"

text \<open>The object \<^verbatim>\<open>deriveMLDSAKey\<close> returns, which is the \<^verbatim>\<open>keyPair\<close> argument of the
  \<^verbatim>\<open>MLDSASigner\<close> constructor. Every property the constructor reads is optional there;
  \<open>km_placeholder\<close> is the property \<^verbatim>\<open>__placeholder\<close>, \<open>None\<close> when the object has none.\<close>

record mldsa_keypair =
  km_privateKey :: "bytes option"
  km_publicKey :: "bytes option"
  km_seed :: "bytes option"
  km_path :: "string option"
  km_type :: "string option"
  km_algorithm :: "string option"
  km_securityLevel :: "nat option"
  km_accountIndex :: "nat option"
  km_addressIndex :: "nat option"
  km_placeholder :: "bool option"

definition deriveMLDSAKey ::
  "'k prims \<Rightarrow> 'k DualKeyDerivation \<Rightarrow> nat \<Rightarrow> nat
     \<Rightarrow> (js_error + mldsa_keypair) \<times> 'k DualKeyDerivation" where
  "deriveMLDSAKey P d accountIndex addressIndex =
     (case kd_initialize P d of
        (Inl e, d') \<Rightarrow> (Inl e, d')
      | (Inr _, d') \<Rightarrow>
          (case buildPath ''MLDSA'' accountIndex addressIndex of
             Inl e \<Rightarrow> (Inl e, d')
           | Inr path \<Rightarrow>
               (case masterKey_derive P d' path of
                  Inl e \<Rightarrow> (Inl e, d')
                | Inr derived \<Rightarrow>
                    (case dn_privateKey derived of
                       None \<Rightarrow> (Inl (Error ''Failed to derive ML-DSA seed''), d')
                     | Some pk \<Rightarrow>
                         (let mldsaSeed = take 32 pk;
                              mldsaKeyPair = generateMLDSAFromSeed P mldsaSeed
                          in (Inr \<lparr>km_privateKey = Some (g_privateKey mldsaKeyPair),
                                   km_publicKey = Some (g_publicKey mldsaKeyPair),
                                   km_seed = Some mldsaSeed, km_path = Some path,
                                   km_type = Some ''ML-DSA'',
                                   km_algorithm = Some ''ML-DSA-65'',
                                   km_securityLevel = Some 3,
                                   km_accountIndex = Some accountIndex,
                                   km_addressIndex = Some addressIndex,
                                   km_placeholder = None\<rparr>, d'))))))"

record derivation_paths =
  dp_ecdsa :: string
  dp_mldsa :: string

definition getDerivationPaths ::
  "'k DualKeyDerivation \<Rightarrow> nat \<Rightarrow> nat \<Rightarrow> js_error + derivation_paths" where
  "getDerivationPaths d accountIndex addressIndex =
     (case buildPath ''ECDSA'' accountIndex addressIndex of
        Inl e \<Rightarrow> Inl e
      | Inr pe \<Rightarrow>
          (case buildPath ''MLDSA'' accountIndex addressIndex of
             Inl e \<Rightarrow> Inl e
           | Inr pm \<Rightarrow> Inr \<lparr>dp_ecdsa = pe, dp_mldsa = pm\<rparr>))"

text \<open>\<^verbatim>\<open>deriveBothKeys\<close>. Both derivations are started and joined; run one after the other
  they do the same, since an initialization that is started twice stores the same
  master key twice.\<close>

record both_keys =
  bk_ecdsa :: ecdsa_key
  bk_mldsa :: mldsa_keypair
  bk_accountIndex :: nat
  bk_addressIndex :: nat

definition deriveBothKeys ::
  "'k prims \<Rightarrow> 'k DualKeyDerivation \<Rightarrow> nat \<Rightarrow> nat
     \<Rightarrow> (js_error + both_keys) \<times> 'k DualKeyDerivation" where
  "deriveBothKeys P d accountIndex addressIndex =
     (case deriveECDSAKey P d accountIndex addressIndex of
        (ecdsaResult, d1) \<Rightarrow>
          (case deriveMLDSAKey P d1 accountIndex addressIndex of
             (mldsaResult, d2) \<Rightarrow>
               (case (ecdsaResult, mldsaResult) of
                  (Inl e, _) \<Rightarrow> (Inl e, d2)
                | (Inr _, Inl e) \<Rightarrow> (Inl e, d2)
                | (Inr ecdsaKey, Inr mldsaKey) \<Rightarrow>
                    (Inr \<lparr>bk_ecdsa = ecdsaKey, bk_mldsa = mldsaKey,
                          bk_accountIndex = accountIndex,
                          bk_addressIndex = addressIndex\<rparr>, d2))))"

text \<open>\<^verbatim>\<open>bytesToHex(x) === bytesToHex(y)\<close> on two values that may be \<^verbatim>\<open>null\<close>.\<close>

definition hex_equal :: "bytes option \<Rightarrow> bytes option \<Rightarrow> js_error + bool" where
  "hex_equal x y =
     (case (x, y) of
        (Some a, Some b) \<Rightarrow> Inr (bytesToHex a = bytesToHex b)
      | _ \<Rightarrow> Inl (External ''bytesToHex''))"

text \<open>\<^verbatim>\<open>validateDeterministic\<close>: the keys are derived twice and compared; \<^verbatim>\<open>&&\<close> does not
  evaluate its right operand when the left one is false.\<close>

definition validateDeterministic ::
  "'k prims \<Rightarrow> 'k DualKeyDerivation \<Rightarrow> nat \<Rightarrow> nat
     \<Rightarrow> (js_error + bool) \<times> 'k DualKeyDerivation" where
  "validateDeterministic P d accountIndex addressIndex =
     (case deriveBothKeys P d accountIndex addressIndex of
        (Inl e, d1) \<Rightarrow> (Inl e, d1)
      | (Inr keys1, d1) \<Rightarrow>
          (case deriveBothKeys P d1 accountIndex addressIndex of
             (Inl e, d2) \<Rightarrow> (Inl e, d2)
           | (Inr keys2, d2) \<Rightarrow>
               (case (if bytesToHex (ek_privateKey (bk_ecdsa keys1))
                           = bytesToHex (ek_privateKey (bk_ecdsa keys2))
                      then hex_equal (ek_publicKey (bk_ecdsa keys1))
                                     (ek_publicKey (bk_ecdsa keys2))
                      else Inr False) of
                  Inl e \<Rightarrow> (Inl e, d2)
                | Inr ecdsaMatch \<Rightarrow>
                    (case hex_equal (km_seed (bk_mldsa keys1)) (km_seed (bk_mldsa keys2)) of
                       Inl e \<Rightarrow> (Inl e, d2)
                     | Inr mldsaMatch \<Rightarrow> (Inr (ecdsaMatch \<and> mldsaMatch), d2)))))"

text \<open>\<^verbatim>\<open>dispose\<close> of the derivation object. The master seed is zeroed only behind the
  test that it is there; the seed is zeroed when it is a \<^verbatim>\<open>Uint8Array\<close>. The references
  are then dropped.\<close>

definition DualKeyDerivation_dispose ::
  "'k DualKeyDerivation \<Rightarrow> js_error + 'k DualKeyDerivation" where
  "DualKeyDerivation_dispose d =
     (let d1 = (if kd_masterKey d \<noteq> None then d\<lparr>kd_masterKey := None\<rparr> else d) in
      case (if kd_masterSeed d1 \<noteq> None
            then (case method_call (kd_masterSeed d1) (\<lambda>b. Inr (fill 0 b)) of
                    Inl e \<Rightarrow> Inl e
                  | Inr zeroed \<Rightarrow> Inr (d1\<lparr>kd_masterSeed := None\<rparr>))
            else Inr d1) of
        Inl e \<Rightarrow> Inl e
      | Inr d2 \<Rightarrow>
          (let zeroed = (case kd_seed d2 of JBytes b \<Rightarrow> JBytes (fill 0 b) | v \<Rightarrow> v)
           in Inr (d2\<lparr>kd_seed := JNull, kd_initialized := False\<rparr>)))"

section \<open>Input serialisation shared by both signers\<close>

text \<open>\<^verbatim>\<open>_dataToBytes\<close>, the same text in \<^verbatim>\<open>ECDSASigner\<close> and \<^verbatim>\<open>MLDSASigner\<close>. A value of
  type \<^verbatim>\<open>object\<close> that is not a \<^verbatim>\<open>Uint8Array\<close> (\<^verbatim>\<open>null\<close> included) goes through
  \<^verbatim>\<open>JSON.stringify\<close>.\<close>

definition dataToBytes :: "'k prims \<Rightarrow> jsval \<Rightarrow> js_error + bytes" where
  "dataToBytes P data =
     (case data of
        JBytes b \<Rightarrow> Inr b
      | JStr s \<Rightarrow>
          (if take 2 s = ''0x''
           then (case hexToBytes P (drop 2 s) of
                   None \<Rightarrow> Inl (External ''hexToBytes'')
                 | Some b \<Rightarrow> Inr b)
           else Inr (utf8ToBytes s))
      | _ \<Rightarrow>
          (if typeof data = ''object''
           then (case JSON_stringify P data of
                   None \<Rightarrow> Inl (External ''JSON.stringify'')
                 | Some s \<Rightarrow> Inr (utf8ToBytes s))
           else Inl (Error ''Unsupported data type for signing'')))"

text \<open>\<^verbatim>\<open>try { body } catch (error) { handler }\<close>.\<close>

definition try_catch :: "js_error + 'a \<Rightarrow> (js_error \<Rightarrow> js_error + 'a) \<Rightarrow> js_error + 'a" where
  "try_catch body handler = (case body of Inl e \<Rightarrow> handler e | Inr v \<Rightarrow> Inr v)"

text \<open>The \<^verbatim>\<open>options\<close> argument of the signing calls; an absent property is \<open>None\<close>.\<close>

record sign_options =
  o_hashMessage :: "bool option"
  o_addPrefix :: "bool option"
  o_deterministic :: "bool option"
  o_context :: "bytes option"
  o_type :: "string option"

definition no_options :: sign_options where
  "no_options = \<lparr>o_hashMessage = None, o_addPrefix = None, o_deterministic = None,
                  o_context = None, o_type = None\<rparr>"

section \<open>ECDSA signer (src/crypto/ecdsa-signer.js)\<close>

record ECDSASigner =
  es_privateKey :: "bytes option"
  es_publicKey :: "bytes option"
  es_path :: "string option"
  es_accountIndex :: nat
  es_addressIndex :: nat

definition ECDSASigner_new :: "ecdsa_key option \<Rightarrow> js_error + ECDSASigner" where
  "ECDSASigner_new keyPair =
     (case keyPair of
        None \<Rightarrow> Inl (Error ''Invalid key pair provided to ECDSASigner'')
      | Some kp \<Rightarrow>
          (case ek_publicKey kp of
             None \<Rightarrow> Inl (Error ''Invalid key pair provided to ECDSASigner'')
           | Some pub \<Rightarrow>
               Inr \<lparr>es_privateKey = Some (ek_privateKey kp), es_publicKey = Some pub,
                    es_path = Some (ek_path kp), es_accountIndex = ek_accountIndex kp,
                    es_addressIndex = ek_addressIndex kp\<rparr>))"

text \<open>The EIP-191 prefix \<^verbatim>\<open>`\x19Ethereum Signed Message:\n${message.length}`\<close>.\<close>

definition eip191_prefix :: "bytes \<Rightarrow> string" where
  "eip191_prefix message =
     CHR 0x19 # ''Ethereum Signed Message:'' @ [CHR 0x0A] @ dec (length message)"

text \<open>The bytes \<^verbatim>\<open>sign\<close> hashes (the serialized data, behind the EIP-191 prefix when
  \<^verbatim>\<open>addPrefix\<close> is set), and the value it hands to \<^verbatim>\<open>secp256k1.sign\<close> (their hash, or the
  bytes themselves when \<^verbatim>\<open>hashMessage\<close> is off).\<close>

definition ECDSASigner_sign_message :: "'k prims \<Rightarrow> jsval \<Rightarrow> sign_options \<Rightarrow> js_error + bytes" where
  "ECDSASigner_sign_message P data options =
     (let addPrefix = (case o_addPrefix options of None \<Rightarrow> False | Some b \<Rightarrow> b) in
      case dataToBytes P data of
        Inl e \<Rightarrow> Inl e
      | Inr message \<Rightarrow>
          Inr (if addPrefix then utf8ToBytes (eip191_prefix message) @ message else message))"

definition ECDSASigner_sign_messageHash ::
  "'k prims \<Rightarrow> jsval \<Rightarrow> sign_options \<Rightarrow> js_error + bytes" where
  "ECDSASigner_sign_messageHash P data options =
     (let hashMessage = (case o_hashMessage options of None \<Rightarrow> True | Some b \<Rightarrow> b) in
      case ECDSASigner_sign_message P data options of
        Inl e \<Rightarrow> Inl e
      | Inr message \<Rightarrow> Inr (if hashMessage then keccak_256 P message else message))"

record ecdsa_signature =
  sig_r :: string
  sig_s :: string
  sig_v :: nat
  sig_signature :: string
  sig_compact :: string
  sig_messageHash :: string
  sig_recovery :: nat

text \<open>\<^verbatim>\<open>sign\<close>. The fields \<^verbatim>\<open>r\<close> and \<^verbatim>\<open>s\<close> are \<^verbatim>\<open>bytesToHex\<close> applied to the padded
  hexadecimal string of the number, a string where the library function expects bytes.\<close>

definition ECDSASigner_sign ::
  "'k prims \<Rightarrow> ECDSASigner \<Rightarrow> jsval \<Rightarrow> sign_options \<Rightarrow> js_error + ecdsa_signature" where
  "ECDSASigner_sign P this data options =
     (case ECDSASigner_sign_messageHash P data options of
        Inl e \<Rightarrow> Inl e
      | Inr messageHash \<Rightarrow>
          (case secp_sign P messageHash (es_privateKey this) of
             None \<Rightarrow> Inl (External ''secp256k1.sign'')
           | Some signature \<Rightarrow>
               (case bytesToHex_of_string P (padStart 64 CHR ''0'' (hex_of_nat (sg_r signature))) of
                  None \<Rightarrow> Inl (External ''bytesToHex'')
                | Some r \<Rightarrow>
                    (case bytesToHex_of_string P
                            (padStart 64 CHR ''0'' (hex_of_nat (sg_s signature))) of
                       None \<Rightarrow> Inl (External ''bytesToHex'')
                     | Some s \<Rightarrow>
                         Inr \<lparr>sig_r = r, sig_s = s, sig_v = sg_recovery signature + 27,
                              sig_signature = sg_compactHex signature,
                              sig_compact = sg_compactHex signature,
                              sig_messageHash = bytesToHex messageHash,
                              sig_recovery = sg_recovery signature\<rparr>))))"

text \<open>The object \<^verbatim>\<open>sign\<close> returns, as a value that can be passed on.\<close>

definition ecdsa_signature_object :: "ecdsa_signature \<Rightarrow> jsval" where
  "ecdsa_signature_object sg =
     JObj [(''r'', JStr (sig_r sg)), (''s'', JStr (sig_s sg)), (''v'', JNum (int (sig_v sg))),
           (''signature'', JStr (sig_signature sg)), (''compact'', JStr (sig_compact sg)),
           (''messageHash'', JStr (sig_messageHash sg)),
           (''recovery'', JNum (int (sig_recovery sg)))]"

definition ECDSASigner_signMessage ::
  "'k prims \<Rightarrow> ECDSASigner \<Rightarrow> jsval \<Rightarrow> js_error + ecdsa_signature" where
  "ECDSASigner_signMessage P this message =
     ECDSASigner_sign P this message
       (no_options\<lparr>o_hashMessage := Some True, o_addPrefix := Some True\<rparr>)"

text \<open>\<^verbatim>\<open>verify\<close>: the hash it recomputes (its first two statements), the body of its
  \<^verbatim>\<open>try\<close> block, and the method.\<close>

definition ECDSASigner_verify_messageHash :: "'k prims \<Rightarrow> jsval \<Rightarrow> js_error + bytes" where
  "ECDSASigner_verify_messageHash P data =
     (case dataToBytes P data of
        Inl e \<Rightarrow> Inl e
      | Inr message \<Rightarrow> Inr (keccak_256 P message))"

definition nullable_bytes :: "bytes option \<Rightarrow> jsval" where
  "nullable_bytes b = (case b of None \<Rightarrow> JNull | Some x \<Rightarrow> JBytes x)"

definition ECDSASigner_verify_body ::
  "'k prims \<Rightarrow> ECDSASigner \<Rightarrow> jsval \<Rightarrow> jsval \<Rightarrow> jsval \<Rightarrow> js_error + bool" where
  "ECDSASigner_verify_body P this data signature publicKey =
     (case ECDSASigner_verify_messageHash P data of
        Inl e \<Rightarrow> Inl e
      | Inr messageHash \<Rightarrow>
          (let pubKey = (if truthy publicKey then publicKey
                         else nullable_bytes (es_publicKey this)) in
           case (case signature of
                   JStr h \<Rightarrow>
                     (case hexToBytes P h of
                        None \<Rightarrow> Inl (External ''hexToBytes'')
                      | Some b \<Rightarrow> Inr (JBytes b))
                 | _ \<Rightarrow> Inr signature) of
             Inl e \<Rightarrow> Inl e
           | Inr sig \<Rightarrow>
               (case secp_verify P sig messageHash pubKey of
                  None \<Rightarrow> Inl (External ''secp256k1.verify'')
                | Some ok \<Rightarrow> Inr ok)))"

definition ECDSASigner_verify ::
  "'k prims \<Rightarrow> ECDSASigner \<Rightarrow> jsval \<Rightarrow> jsval \<Rightarrow> jsval \<Rightarrow> js_error + bool" where
  "ECDSASigner_verify P this data signature publicKey =
     try_catch (ECDSASigner_verify_body P this data signature publicKey) (\<lambda>error. Inr False)"

text \<open>\<^verbatim>\<open>_serializeTransaction\<close> and \<^verbatim>\<open>signTransaction\<close>. The transaction is an object; a
  missing or falsy field takes the default.\<close>

definition or_default :: "jsval \<Rightarrow> jsval \<Rightarrow> jsval" where
  "or_default v d = (if truthy v then v else d)"

definition serializeTransaction :: "'k prims \<Rightarrow> jsval \<Rightarrow> js_error + bytes" where
  "serializeTransaction P tx =
     (case (get_prop tx ''nonce'', get_prop tx ''gasPrice'', get_prop tx ''gasLimit'',
            get_prop tx ''gas'', get_prop tx ''to'', get_prop tx ''value'', get_prop tx ''data'',
            get_prop tx ''chainId'') of
        (Inr nonce, Inr gasPrice, Inr gasLimit, Inr gas, Inr to, Inr val, Inr dat, Inr chainId) \<Rightarrow>
          (case JSON_stringify P
                  (JArr [or_default nonce (JNum 0), or_default gasPrice (JNum 0),
                         or_default gasLimit (or_default gas (JNum 21000)),
                         or_default to (JStr []), or_default val (JNum 0),
                         or_default dat (JStr ''0x''), or_default chainId (JNum 1)]) of
             None \<Rightarrow> Inl (External ''JSON.stringify'')
           | Some s \<Rightarrow> Inr (utf8ToBytes s))
      | _ \<Rightarrow> Inl TypeError)"

definition ECDSASigner_signTransaction ::
  "'k prims \<Rightarrow> ECDSASigner \<Rightarrow> jsval \<Rightarrow> js_error + (jsval \<times> ecdsa_signature)" where
  "ECDSASigner_signTransaction P this tx =
     (case serializeTransaction P tx of
        Inl e \<Rightarrow> Inl e
      | Inr txData \<Rightarrow>
          (case ECDSASigner_sign P this (JBytes txData)
                  (no_options\<lparr>o_hashMessage := Some True, o_addPrefix := Some False\<rparr>) of
             Inl e \<Rightarrow> Inl e
           | Inr signature \<Rightarrow> Inr (tx, signature)))"

text \<open>Addresses and public keys. \<^verbatim>\<open>ProjectivePoint.fromHex(h).toRawBytes(c)\<close> is the
  primitive \<open>point_toRawBytes\<close> on the bytes that \<^verbatim>\<open>h\<close> encodes.\<close>

definition ECDSASigner_address_hex :: "'k prims \<Rightarrow> ECDSASigner \<Rightarrow> js_error + string" where
  "ECDSASigner_address_hex P this =
     (case es_publicKey this of
        None \<Rightarrow> Inl TypeError
      | Some pubKey0 \<Rightarrow>
          (case (if length pubKey0 = 65 \<and> hd pubKey0 = 4 then Inr (drop 1 pubKey0)
                 else if length pubKey0 = 33
                 then (case point_toRawBytes P pubKey0 False of
                         None \<Rightarrow> Inl (External ''ProjectivePoint.fromHex'')
                       | Some uncompressed \<Rightarrow> Inr (drop 1 uncompressed))
                 else Inr pubKey0) of
             Inl e \<Rightarrow> Inl e
           | Inr pubKey \<Rightarrow>
               (let pubKeyHash = keccak_256 P pubKey;
                    address = drop (length pubKeyHash - 20) pubKeyHash
                in Inr (bytesToHex address))))"

definition ECDSASigner_getAddress :: "'k prims \<Rightarrow> ECDSASigner \<Rightarrow> js_error + string" where
  "ECDSASigner_getAddress P this =
     (case ECDSASigner_address_hex P this of
        Inl e \<Rightarrow> Inl e
      | Inr h \<Rightarrow> Inr (''0x'' @ h))"

definition toUpperCase_char :: "char \<Rightarrow> char" where
  "toUpperCase_char c =
     (if c = CHR ''a'' then CHR ''A'' else if c = CHR ''b'' then CHR ''B''
      else if c = CHR ''c'' then CHR ''C'' else if c = CHR ''d'' then CHR ''D''
      else if c = CHR ''e'' then CHR ''E'' else if c = CHR ''f'' then CHR ''F'' else c)"

text \<open>The loop of \<^verbatim>\<open>getChecksumAddress\<close> over the lower-case hexadecimal address and the
  hexadecimal hash; past the end of the hash, \<^verbatim>\<open>parseInt(undefined, 16) >= 8\<close> is false.\<close>

fun checksum_loop :: "string \<Rightarrow> string \<Rightarrow> string" where
  "checksum_loop [] hash = []"
| "checksum_loop (a # address) [] = a # checksum_loop address []"
| "checksum_loop (a # address) (h # hash) =
     (if h \<in> set ''89abcdef'' then toUpperCase_char a else a) # checksum_loop address hash"

definition ECDSASigner_getChecksumAddress :: "'k prims \<Rightarrow> ECDSASigner \<Rightarrow> js_error + string" where
  "ECDSASigner_getChecksumAddress P this =
     (case ECDSASigner_address_hex P this of
        Inl e \<Rightarrow> Inl e
      | Inr address \<Rightarrow>
          Inr (''0x'' @ checksum_loop address
                          (bytesToHex (keccak_256 P (utf8ToBytes address)))))"

definition getCompressedPublicKey :: "'k prims \<Rightarrow> ECDSASigner \<Rightarrow> js_error + bytes" where
  "getCompressedPublicKey P this =
     (case es_publicKey this of
        None \<Rightarrow> Inl TypeError
      | Some pub \<Rightarrow>
          (if length pub = 33 then Inr pub
           else (case point_toRawBytes P pub True of
                   None \<Rightarrow> Inl (External ''ProjectivePoint.fromHex'')
                 | Some b \<Rightarrow> Inr b)))"

definition getUncompressedPublicKey :: "'k prims \<Rightarrow> ECDSASigner \<Rightarrow> js_error + bytes" where
  "getUncompressedPublicKey P this =
     (case es_publicKey this of
        None \<Rightarrow> Inl TypeError
      | Some pub \<Rightarrow>
          (if length pub = 65 then Inr pub
           else (case point_toRawBytes P pub False of
                   None \<Rightarrow> Inl (External ''ProjectivePoint.fromHex'')
                 | Some b \<Rightarrow> Inr b)))"

record ecdsa_public_key =
  epk_compressed :: string
  epk_uncompressed :: string
  epk_raw :: "bytes option"
  epk_path :: "string option"
  epk_accountIndex :: nat
  epk_addressIndex :: nat

definition ECDSASigner_getPublicKey :: "'k prims \<Rightarrow> ECDSASigner \<Rightarrow> js_error + ecdsa_public_key" where
  "ECDSASigner_getPublicKey P this =
     (case getCompressedPublicKey P this of
        Inl e \<Rightarrow> Inl e
      | Inr compressed \<Rightarrow>
          (case getUncompressedPublicKey P this of
             Inl e \<Rightarrow> Inl e
           | Inr uncompressed \<Rightarrow>
               Inr \<lparr>epk_compressed = bytesToHex compressed,
                    epk_uncompressed = bytesToHex uncompressed,
                    epk_raw = es_publicKey this, epk_path = es_path this,
                    epk_accountIndex = es_accountIndex this,
                    epk_addressIndex = es_addressIndex this\<rparr>))"

record ecdsa_info =
  ei_address :: string
  ei_checksumAddress :: string
  ei_publicKeyCompressed :: string
  ei_path :: "string option"
  ei_accountIndex :: nat
  ei_addressIndex :: nat

definition ECDSASigner_getInfo :: "'k prims \<Rightarrow> ECDSASigner \<Rightarrow> js_error + ecdsa_info" where
  "ECDSASigner_getInfo P this =
     (case ECDSASigner_getAddress P this of
        Inl e \<Rightarrow> Inl e
      | Inr address \<Rightarrow>
          (case ECDSASigner_getChecksumAddress P this of
             Inl e \<Rightarrow> Inl e
           | Inr checksumAddress \<Rightarrow>
               (case getCompressedPublicKey P this of
                  Inl e \<Rightarrow> Inl e
                | Inr compressed \<Rightarrow>
                    Inr \<lparr>ei_address = address, ei_checksumAddress = checksumAddress,
                         ei_publicKeyCompressed = bytesToHex compressed,
                         ei_path = es_path this, ei_accountIndex = es_accountIndex this,
                         ei_addressIndex = es_addressIndex this\<rparr>)))"

text \<open>\<^verbatim>\<open>dispose\<close>: the private key is zeroed behind the test that it is there.\<close>

definition ECDSASigner_dispose :: "ECDSASigner \<Rightarrow> js_error + ECDSASigner" where
  "ECDSASigner_dispose this =
     (case (if es_privateKey this \<noteq> None
            then (case method_call (es_privateKey this) (\<lambda>b. Inr (fill 0 b)) of
                    Inl e \<Rightarrow> Inl e
                  | Inr zeroed \<Rightarrow> Inr (this\<lparr>es_privateKey := None\<rparr>))
            else Inr this) of
        Inl e \<Rightarrow> Inl e
      | Inr this1 \<Rightarrow> Inr (this1\<lparr>es_publicKey := None, es_path := None\<rparr>))"

section \<open>ML-DSA signer (src/crypto/mldsa-signer.js)\<close>

record mldsa_level =
  level :: nat
  privateKeySize :: nat
  publicKeySize :: nat
  signatureSize :: nat

text \<open>\<^verbatim>\<open>ML_DSA_LEVELS\<close>. Its keys are written with underscores.\<close>

definition ML_DSA_LEVELS :: "(string \<times> mldsa_level) list" where
  "ML_DSA_LEVELS =
     [(''ML_DSA_44'', \<lparr>level = 2, privateKeySize = 2560, publicKeySize = 1312,
                       signatureSize = 2420\<rparr>),
      (''ML_DSA_65'', \<lparr>level = 3, privateKeySize = 4032, publicKeySize = 1952,
                       signatureSize = 3293\<rparr>),
      (''ML_DSA_87'', \<lparr>level = 5, privateKeySize = 4896, publicKeySize = 2592,
                       signatureSize = 4595\<rparr>)]"

record MLDSASigner =
  ms_privateKey :: "bytes option"
  ms_publicKey :: "bytes option"
  ms_seed :: "bytes option"
  ms_path :: "string option"
  ms_algorithm :: string
  ms_securityLevel :: nat
  ms_accountIndex :: nat
  ms_addressIndex :: nat
  ms_hasRealImplementation :: bool

text \<open>\<^verbatim>\<open>_validateKeySizes\<close>, given the algorithm name and the value of
  \<^verbatim>\<open>this._hasRealImplementation\<close> at the time of the call (\<open>None\<close> for \<^verbatim>\<open>undefined\<close>).
  Past the table lookup the method only writes warnings to the console.\<close>

definition validateKeySizes :: "string \<Rightarrow> bool option \<Rightarrow> js_error + unit" where
  "validateKeySizes algorithm hasRealImplementation =
     (case map_of ML_DSA_LEVELS algorithm of
        None \<Rightarrow> Inl (Error (''Unknown ML-DSA algorithm: '' @ algorithm))
      | Some expectedSizes \<Rightarrow> Inr ())"

text \<open>The constructor. It calls \<^verbatim>\<open>_validateKeySizes\<close> before it assigns
  \<^verbatim>\<open>_hasRealImplementation\<close>, which is \<^verbatim>\<open>!keyPair.__placeholder\<close>.\<close>

definition MLDSASigner_new :: "mldsa_keypair option \<Rightarrow> js_error + MLDSASigner" where
  "MLDSASigner_new keyPair =
     (case keyPair of
        None \<Rightarrow> Inl (Error ''Invalid key pair provided to MLDSASigner'')
      | Some kp \<Rightarrow>
          (case (km_privateKey kp, km_publicKey kp) of
             (Some priv, Some pub) \<Rightarrow>
               (let algorithm = (case km_algorithm kp of
                                   None \<Rightarrow> ''ML-DSA-65''
                                 | Some a \<Rightarrow> if a = [] then ''ML-DSA-65'' else a);
                    securityLevel = (case km_securityLevel kp of
                                       None \<Rightarrow> 3
                                     | Some l \<Rightarrow> if l = 0 then 3 else l)
                in case validateKeySizes algorithm None of
                     Inl e \<Rightarrow> Inl e
                   | Inr _ \<Rightarrow>
                       Inr \<lparr>ms_privateKey = Some priv, ms_publicKey = Some pub,
                            ms_seed = km_seed kp,
                            ms_path = Some (case km_path kp of None \<Rightarrow> [] | Some p \<Rightarrow> p),
                            ms_algorithm = algorithm, ms_securityLevel = securityLevel,
                            ms_accountIndex = (case km_accountIndex kp of None \<Rightarrow> 0 | Some n \<Rightarrow> n),
                            ms_addressIndex = (case km_addressIndex kp of None \<Rightarrow> 0 | Some n \<Rightarrow> n),
                            ms_hasRealImplementation =
                              (case km_placeholder kp of None \<Rightarrow> True | Some b \<Rightarrow> \<not> b)\<rparr>)
           | _ \<Rightarrow> Inl (Error ''Invalid key pair provided to MLDSASigner'')))"

definition MLDSASigner_hasRealImplementation :: "MLDSASigner \<Rightarrow> bool" where
  "MLDSASigner_hasRealImplementation this = ms_hasRealImplementation this"

text \<open>\<^verbatim>\<open>ML_DSA_LEVELS[this._algorithm].signatureSize\<close>.\<close>

definition MLDSASigner_getSignatureSize :: "MLDSASigner \<Rightarrow> js_error + nat" where
  "MLDSASigner_getSignatureSize this =
     (case map_of ML_DSA_LEVELS (ms_algorithm this) of
        None \<Rightarrow> Inl TypeError
      | Some sizes \<Rightarrow> Inr (signatureSize sizes))"

record mldsa_signature =
  msig_signature :: bytes
  msig_signatureHex :: string
  msig_algorithm :: string
  msig_securityLevel :: nat
  msig_publicKey :: "bytes option"
  msig_messageHash :: string
  msig_context :: string
  msig_timestamp :: nat
  msig_placeholder :: bool

text \<open>\<^verbatim>\<open>_signWithPlaceholder\<close>; \<open>now\<close> is the value of \<^verbatim>\<open>Date.now()\<close>.\<close>

definition signWithPlaceholder ::
  "'k prims \<Rightarrow> MLDSASigner \<Rightarrow> nat \<Rightarrow> bytes \<Rightarrow> bytes \<Rightarrow> bool \<Rightarrow> js_error + mldsa_signature" where
  "signWithPlaceholder P this now message context deterministic =
     (let messageHash = sha3_256 P message;
          seedHash = sha3_256 P (case ms_seed this of None \<Rightarrow> replicate 32 0 | Some s \<Rightarrow> s);
          combinedHash = sha3_256 P (messageHash @ seedHash @ context)
      in case MLDSASigner_getSignatureSize this of
           Inl e \<Rightarrow> Inl e
         | Inr expectedSize \<Rightarrow>
             (let signature = shake256 P combinedHash expectedSize
              in Inr \<lparr>msig_signature = signature, msig_signatureHex = bytesToHex signature,
                      msig_algorithm = ms_algorithm this,
                      msig_securityLevel = ms_securityLevel this,
                      msig_publicKey = ms_publicKey this,
                      msig_messageHash = bytesToHex messageHash,
                      msig_context = bytesToHex context, msig_timestamp = now,
                      msig_placeholder = True\<rparr>))"

text \<open>\<^verbatim>\<open>_signWithRealImplementation\<close>: a missing library, a missing export and an exception
  of the library all end in the placeholder.\<close>

definition signWithRealImplementation ::
  "'k prims \<Rightarrow> MLDSASigner \<Rightarrow> nat \<Rightarrow> bytes \<Rightarrow> bytes \<Rightarrow> bool \<Rightarrow> js_error + mldsa_signature" where
  "signWithRealImplementation P this now message context deterministic =
     (case (case ml_dsa_65 P of
              None \<Rightarrow> None
            | Some lib \<Rightarrow> lib_sign lib message (ms_privateKey this) context deterministic) of
        Some signature \<Rightarrow>
          Inr \<lparr>msig_signature = signature, msig_signatureHex = bytesToHex signature,
               msig_algorithm = ms_algorithm this, msig_securityLevel = ms_securityLevel this,
               msig_publicKey = ms_publicKey this,
               msig_messageHash = bytesToHex (sha3_256 P message),
               msig_context = bytesToHex context, msig_timestamp = now,
               msig_placeholder = False\<rparr>
      | None \<Rightarrow> signWithPlaceholder P this now message context deterministic)"

definition MLDSASigner_sign ::
  "'k prims \<Rightarrow> MLDSASigner \<Rightarrow> nat \<Rightarrow> jsval \<Rightarrow> sign_options \<Rightarrow> js_error + mldsa_signature" where
  "MLDSASigner_sign P this now data options =
     (let deterministic = (case o_deterministic options of None \<Rightarrow> True | Some b \<Rightarrow> b);
          context = (case o_context options of None \<Rightarrow> [] | Some c \<Rightarrow> c)
      in case dataToBytes P data of
           Inl e \<Rightarrow> Inl e
         | Inr message \<Rightarrow>
             (if ms_hasRealImplementation this
              then signWithRealImplementation P this now message context deterministic
              else signWithPlaceholder P this now message context deterministic))"

text \<open>The object \<^verbatim>\<open>sign\<close> returns, as a value that can be passed on.\<close>

definition mldsa_signature_object :: "mldsa_signature \<Rightarrow> jsval" where
  "mldsa_signature_object sg =
     JObj ([(''signature'', JBytes (msig_signature sg)),
            (''signatureHex'', JStr (msig_signatureHex sg)),
            (''algorithm'', JStr (msig_algorithm sg)),
            (''securityLevel'', JNum (int (msig_securityLevel sg))),
            (''publicKey'', nullable_bytes (msig_publicKey sg)),
            (''messageHash'', JStr (msig_messageHash sg)),
            (''context'', JStr (msig_context sg)),
            (''timestamp'', JNum (int (msig_timestamp sg)))]
           @ (if msig_placeholder sg then [(''__placeholder'', JBool True)] else []))"

text \<open>\<^verbatim>\<open>verify\<close>. First the signature bytes are taken out of the \<^verbatim>\<open>signature\<close> argument;
  \<open>Inr None\<close> is the branch that returns \<^verbatim>\<open>false\<close> at once.\<close>

definition MLDSASigner_sigBytes :: "'k prims \<Rightarrow> jsval \<Rightarrow> js_error + jsval option" where
  "MLDSASigner_sigBytes P signature =
     (case signature of
        JBytes b \<Rightarrow> Inr (Some signature)
      | JStr h \<Rightarrow>
          (case hexToBytes P h of
             None \<Rightarrow> Inl (External ''hexToBytes'')
           | Some b \<Rightarrow> Inr (Some (JBytes b)))
      | _ \<Rightarrow>
          (if typeof signature = ''object''
           then (case get_prop signature ''signature'' of
                   Inl e \<Rightarrow> Inl e
                 | Inr v \<Rightarrow> Inr (if truthy v then Some v else None))
           else Inr None))"

text \<open>The last two lines of the \<^verbatim>\<open>try\<close> block: the size-only check.\<close>

definition MLDSASigner_size_check :: "MLDSASigner \<Rightarrow> jsval \<Rightarrow> js_error + bool" where
  "MLDSASigner_size_check this sigBytes =
     (case MLDSASigner_getSignatureSize this of
        Inl e \<Rightarrow> Inl e
      | Inr expectedSize \<Rightarrow>
          (case get_prop sigBytes ''length'' of
             Inl e \<Rightarrow> Inl e
           | Inr len \<Rightarrow> Inr (len = JNum (int expectedSize))))"

definition MLDSASigner_verify_body ::
  "'k prims \<Rightarrow> MLDSASigner \<Rightarrow> jsval \<Rightarrow> jsval \<Rightarrow> jsval \<Rightarrow> js_error + bool" where
  "MLDSASigner_verify_body P this data signature publicKey =
     (case dataToBytes P data of
        Inl e \<Rightarrow> Inl e
      | Inr message \<Rightarrow>
          (let pubKey = (if truthy publicKey then publicKey
                         else nullable_bytes (ms_publicKey this)) in
           case MLDSASigner_sigBytes P signature of
             Inl e \<Rightarrow> Inl e
           | Inr None \<Rightarrow> Inr False
           | Inr (Some sigBytes) \<Rightarrow>
               (case (if ms_hasRealImplementation this
                      then (case ml_dsa_65 P of
                              None \<Rightarrow> None
                            | Some lib \<Rightarrow> lib_verify lib sigBytes message pubKey)
                      else None) of
                  Some ok \<Rightarrow> Inr ok
                | None \<Rightarrow> MLDSASigner_size_check this sigBytes)))"

definition MLDSASigner_verify ::
  "'k prims \<Rightarrow> MLDSASigner \<Rightarrow> jsval \<Rightarrow> jsval \<Rightarrow> jsval \<Rightarrow> js_error + bool" where
  "MLDSASigner_verify P this data signature publicKey =
     try_catch (MLDSASigner_verify_body P this data signature publicKey) (\<lambda>error. Inr False)"

text \<open>Addresses, public key, fingerprint, information. A hash of the \<^verbatim>\<open>null\<close> public key
  of a disposed signer is an exception of the hash function.\<close>

definition MLDSASigner_pubKeyHash :: "'k prims \<Rightarrow> MLDSASigner \<Rightarrow> js_error + bytes" where
  "MLDSASigner_pubKeyHash P this =
     (case ms_publicKey this of
        None \<Rightarrow> Inl (External ''sha3_256'')
      | Some pub \<Rightarrow> Inr (sha3_256 P pub))"

definition MLDSASigner_getAddress :: "'k prims \<Rightarrow> MLDSASigner \<Rightarrow> js_error + string" where
  "MLDSASigner_getAddress P this =
     (case MLDSASigner_pubKeyHash P this of
        Inl e \<Rightarrow> Inl e
      | Inr pubKeyHash \<Rightarrow> Inr (''mldsa:'' @ bytesToHex (take 20 pubKeyHash)))"

definition toLowerCase :: "string \<Rightarrow> string" where
  "toLowerCase s =
     map (\<lambda>c. let n = (of_char c :: nat) in if 65 \<le> n \<and> n \<le> 90 then char_of (n + 32) else c) s"

record mldsa_address_formats =
  af_standard :: string
  af_hex :: string
  af_bytes :: bytes
  af_full :: string
  af_truncated :: string

definition MLDSASigner_getAddressFormats ::
  "'k prims \<Rightarrow> MLDSASigner \<Rightarrow> js_error + mldsa_address_formats" where
  "MLDSASigner_getAddressFormats P this =
     (case MLDSASigner_pubKeyHash P this of
        Inl e \<Rightarrow> Inl e
      | Inr pubKeyHash \<Rightarrow>
          (let addressBytes = take 20 pubKeyHash; h = bytesToHex addressBytes in
           case MLDSASigner_getAddress P this of
             Inl e \<Rightarrow> Inl e
           | Inr standard \<Rightarrow>
               Inr \<lparr>af_standard = standard, af_hex = h, af_bytes = addressBytes,
                    af_full = ''mldsa:'' @ toLowerCase (ms_algorithm this) @ '':'' @ h,
                    af_truncated = ''mldsa:'' @ take 8 h @ ''...'' @ drop (length h - 6) h\<rparr>))"

record mldsa_public_key =
  mpk_bytes :: bytes
  mpk_hex :: string
  mpk_size :: nat
  mpk_algorithm :: string
  mpk_securityLevel :: nat
  mpk_path :: "string option"
  mpk_accountIndex :: nat
  mpk_addressIndex :: nat
  mpk_address :: string

definition MLDSASigner_getPublicKey :: "'k prims \<Rightarrow> MLDSASigner \<Rightarrow> js_error + mldsa_public_key" where
  "MLDSASigner_getPublicKey P this =
     (case ms_publicKey this of
        None \<Rightarrow> Inl (External ''bytesToHex'')
      | Some pub \<Rightarrow>
          (case MLDSASigner_getAddress P this of
             Inl e \<Rightarrow> Inl e
           | Inr address \<Rightarrow>
               Inr \<lparr>mpk_bytes = pub, mpk_hex = bytesToHex pub, mpk_size = length pub,
                    mpk_algorithm = ms_algorithm this,
                    mpk_securityLevel = ms_securityLevel this, mpk_path = ms_path this,
                    mpk_accountIndex = ms_accountIndex this,
                    mpk_addressIndex = ms_addressIndex this, mpk_address = address\<rparr>))"

definition MLDSASigner_getFingerprint :: "'k prims \<Rightarrow> MLDSASigner \<Rightarrow> js_error + string" where
  "MLDSASigner_getFingerprint P this =
     (case MLDSASigner_pubKeyHash P this of
        Inl e \<Rightarrow> Inl e
      | Inr hash \<Rightarrow> Inr (bytesToHex (take 8 hash)))"

record mldsa_info =
  mi_algorithm :: string
  mi_securityLevel :: nat
  mi_nistLevel :: string
  mi_address :: string
  mi_fingerprint :: string
  mi_publicKeySize :: nat
  mi_privateKeySize :: nat
  mi_signatureSize :: nat
  mi_path :: "string option"
  mi_accountIndex :: nat
  mi_addressIndex :: nat
  mi_hasRealImplementation :: bool

definition MLDSASigner_getInfo :: "'k prims \<Rightarrow> MLDSASigner \<Rightarrow> js_error + mldsa_info" where
  "MLDSASigner_getInfo P this =
     (case MLDSASigner_getAddress P this of
        Inl e \<Rightarrow> Inl e
      | Inr address \<Rightarrow>
          (case MLDSASigner_getFingerprint P this of
             Inl e \<Rightarrow> Inl e
           | Inr fingerprint \<Rightarrow>
               (case map_of ML_DSA_LEVELS (ms_algorithm this) of
                  None \<Rightarrow> Inl TypeError
                | Some sizes \<Rightarrow>
                    Inr \<lparr>mi_algorithm = ms_algorithm this,
                         mi_securityLevel = ms_securityLevel this,
                         mi_nistLevel = ''NIST Level '' @ dec (ms_securityLevel this),
                         mi_address = address, mi_fingerprint = fingerprint,
                         mi_publicKeySize = publicKeySize sizes,
                         mi_privateKeySize = privateKeySize sizes,
                         mi_signatureSize = signatureSize sizes, mi_path = ms_path this,
                         mi_accountIndex = ms_accountIndex this,
                         mi_addressIndex = ms_addressIndex this,
                         mi_hasRealImplementation = ms_hasRealImplementation this\<rparr>)))"

text \<open>\<^verbatim>\<open>dispose\<close>: private key and seed are zeroed behind the tests that they are there.\<close>

definition MLDSASigner_dispose :: "MLDSASigner \<Rightarrow> js_error + MLDSASigner" where
  "MLDSASigner_dispose this =
     (case (if ms_privateKey this \<noteq> None
            then (case method_call (ms_privateKey this) (\<lambda>b. Inr (fill 0 b)) of
                    Inl e \<Rightarrow> Inl e
                  | Inr zeroed \<Rightarrow> Inr (this\<lparr>ms_privateKey := None\<rparr>))
            else Inr this) of
        Inl e \<Rightarrow> Inl e
      | Inr this1 \<Rightarrow>
          (case (if ms_seed this1 \<noteq> None
                 then (case method_call (ms_seed this1) (\<lambda>b. Inr (fill 0 b)) of
                         Inl e \<Rightarrow> Inl e
                       | Inr zeroed \<Rightarrow> Inr (this1\<lparr>ms_seed := None\<rparr>))
                 else Inr this1) of
             Inl e \<Rightarrow> Inl e
           | Inr this2 \<Rightarrow> Inr (this2\<lparr>ms_publicKey := None, ms_path := None\<rparr>)))"

section \<open>Dual signature protocol (src/protocols/dual-signature-protocol.js)\<close>

text \<open>The account collaborator is duck-typed: each method and each property may be
  missing. \<open>acc_getSeed = Some v\<close> is an account whose \<^verbatim>\<open>getSeed()\<close> resolves to \<open>v\<close>.\<close>

record account =
  acc_getSeed :: "jsval option"
  acc_seed :: jsval
  acc_getAccountIndex :: "nat option"
  acc_accountIndex :: "nat option"
  acc_getAddressIndex :: "nat option"
  acc_addressIndex :: "nat option"

record config =
  cfg_ecdsaEnabled :: bool
  cfg_mldsaEnabled :: bool
  cfg_defaultSignatureType :: string
  cfg_mldsaAlgorithm :: string
  cfg_autoInitialize :: bool
  cfg_seed :: jsval
  cfg_accountIndex :: "nat option"
  cfg_addressIndex :: "nat option"

text \<open>The \<^verbatim>\<open>config\<close> argument of the constructor: every property is optional.\<close>

record user_config =
  uc_ecdsaEnabled :: "bool option"
  uc_mldsaEnabled :: "bool option"
  uc_defaultSignatureType :: "string option"
  uc_mldsaAlgorithm :: "string option"
  uc_autoInitialize :: "bool option"
  uc_seed :: jsval
  uc_accountIndex :: "nat option"
  uc_addressIndex :: "nat option"

definition default_config :: user_config where
  "default_config =
     \<lparr>uc_ecdsaEnabled = None, uc_mldsaEnabled = None, uc_defaultSignatureType = None,
      uc_mldsaAlgorithm = None, uc_autoInitialize = None, uc_seed = JUndefined,
      uc_accountIndex = None, uc_addressIndex = None\<rparr>"

record dual_addresses =
  addr_ethereum :: "string option"
  addr_ethereumChecksum :: "string option"
  addr_mldsa :: "string option"
  addr_mldsaFormats :: "mldsa_address_formats option"

record dual_public_keys =
  pk_ecdsa :: "ecdsa_public_key option"
  pk_mldsa :: "mldsa_public_key option"

record 'k DualSignatureProtocol =
  p_account :: "account option"
  p_config :: "config option"
  p_keyDerivation :: "'k DualKeyDerivation option"
  p_ecdsaSigner :: "ECDSASigner option"
  p_mldsaSigner :: "MLDSASigner option"
  p_initialized :: bool
  p_accountIndex :: "nat option"
  p_addressIndex :: "nat option"
  p_addressCache :: "string \<rightharpoonup> dual_addresses"
  p_publicKeyCache :: "string \<rightharpoonup> dual_public_keys"

definition DualSignatureProtocol_new ::
  "account option \<Rightarrow> user_config \<Rightarrow> js_error + 'k DualSignatureProtocol" where
  "DualSignatureProtocol_new acc uc =
     (case acc of
        None \<Rightarrow> Inl (Error ''Account is required for DualSignatureProtocol'')
      | Some a \<Rightarrow>
          Inr \<lparr>p_account = Some a,
               p_config = Some
                 \<lparr>cfg_ecdsaEnabled = (case uc_ecdsaEnabled uc of None \<Rightarrow> True | Some b \<Rightarrow> b),
                  cfg_mldsaEnabled = (case uc_mldsaEnabled uc of None \<Rightarrow> True | Some b \<Rightarrow> b),
                  cfg_defaultSignatureType =
                    (case uc_defaultSignatureType uc of None \<Rightarrow> ''ecdsa'' | Some t \<Rightarrow> t),
                  cfg_mldsaAlgorithm =
                    (case uc_mldsaAlgorithm uc of None \<Rightarrow> ''ML-DSA-65'' | Some t \<Rightarrow> t),
                  cfg_autoInitialize =
                    (case uc_autoInitialize uc of None \<Rightarrow> True | Some b \<Rightarrow> b),
                  cfg_seed = uc_seed uc, cfg_accountIndex = uc_accountIndex uc,
                  cfg_addressIndex = uc_addressIndex uc\<rparr>,
               p_keyDerivation = None, p_ecdsaSigner = None, p_mldsaSigner = None,
               p_initialized = False, p_accountIndex = None, p_addressIndex = None,
               p_addressCache = Map.empty, p_publicKeyCache = Map.empty\<rparr>)"

text \<open>Seed and index resolution inside \<^verbatim>\<open>_initialize\<close>, \<^verbatim>\<open>_getAccountIndex\<close> and
  \<^verbatim>\<open>_getAddressIndex\<close>. A read through the \<^verbatim>\<open>null\<close> account is a \<open>TypeError\<close>.\<close>

definition resolve_seed :: "config \<Rightarrow> account option \<Rightarrow> js_error + jsval" where
  "resolve_seed c acc =
     (if truthy (cfg_seed c) then Inr (cfg_seed c)
      else (case acc of
              None \<Rightarrow> Inl TypeError
            | Some a \<Rightarrow>
                (case acc_getSeed a of
                   Some v \<Rightarrow> Inr v
                 | None \<Rightarrow>
                     (if truthy (acc_seed a) then Inr (acc_seed a)
                      else Inl (Error ''No seed available for key derivation'')))))"

definition getAccountIndex :: "config \<Rightarrow> account option \<Rightarrow> js_error + nat" where
  "getAccountIndex c acc =
     (case cfg_accountIndex c of
        Some n \<Rightarrow> Inr n
      | None \<Rightarrow>
          (case acc of
             None \<Rightarrow> Inl TypeError
           | Some a \<Rightarrow>
               (case acc_getAccountIndex a of
                  Some n \<Rightarrow> Inr n
                | None \<Rightarrow> (case acc_accountIndex a of Some n \<Rightarrow> Inr n | None \<Rightarrow> Inr 0))))"

definition getAddressIndex :: "config \<Rightarrow> account option \<Rightarrow> js_error + nat" where
  "getAddressIndex c acc =
     (case cfg_addressIndex c of
        Some n \<Rightarrow> Inr n
      | None \<Rightarrow>
          (case acc of
             None \<Rightarrow> Inl TypeError
           | Some a \<Rightarrow>
               (case acc_getAddressIndex a of
                  Some n \<Rightarrow> Inr n
                | None \<Rightarrow> (case acc_addressIndex a of Some n \<Rightarrow> Inr n | None \<Rightarrow> Inr 0))))"

text \<open>The two conditional blocks of \<^verbatim>\<open>_initialize\<close> that derive a key and construct a
  signer. The derivation object is shared, so its state after the call is stored back.\<close>

definition init_ecdsa ::
  "'k prims \<Rightarrow> config \<Rightarrow> nat \<Rightarrow> nat \<Rightarrow> 'k DualSignatureProtocol
     \<Rightarrow> (js_error + unit) \<times> 'k DualSignatureProtocol" where
  "init_ecdsa P c a i p =
     (if cfg_ecdsaEnabled c
      then (case p_keyDerivation p of
              None \<Rightarrow> (Inl TypeError, p)
            | Some d \<Rightarrow>
                (case deriveECDSAKey P d a i of
                   (Inl e, d') \<Rightarrow> (Inl e, p\<lparr>p_keyDerivation := Some d'\<rparr>)
                 | (Inr ecdsaKey, d') \<Rightarrow>
                     (case ECDSASigner_new (Some ecdsaKey) of
                        Inl e \<Rightarrow> (Inl e, p\<lparr>p_keyDerivation := Some d'\<rparr>)
                      | Inr signer \<Rightarrow>
                          (Inr (), p\<lparr>p_keyDerivation := Some d',
                                     p_ecdsaSigner := Some signer\<rparr>))))
      else (Inr (), p))"

definition init_mldsa ::
  "'k prims \<Rightarrow> config \<Rightarrow> nat \<Rightarrow> nat \<Rightarrow> 'k DualSignatureProtocol
     \<Rightarrow> (js_error + unit) \<times> 'k DualSignatureProtocol" where
  "init_mldsa P c a i p =
     (if cfg_mldsaEnabled c
      then (case p_keyDerivation p of
              None \<Rightarrow> (Inl TypeError, p)
            | Some d \<Rightarrow>
                (case deriveMLDSAKey P d a i of
                   (Inl e, d') \<Rightarrow> (Inl e, p\<lparr>p_keyDerivation := Some d'\<rparr>)
                 | (Inr mldsaKey, d') \<Rightarrow>
                     (case MLDSASigner_new (Some mldsaKey) of
                        Inl e \<Rightarrow> (Inl e, p\<lparr>p_keyDerivation := Some d'\<rparr>)
                      | Inr signer \<Rightarrow>
                          (Inr (), p\<lparr>p_keyDerivation := Some d',
                                     p_mldsaSigner := Some signer\<rparr>))))
      else (Inr (), p))"

text \<open>The \<^verbatim>\<open>try\<close> block of \<^verbatim>\<open>_initialize\<close>. Assignments made before an exception stay.\<close>

definition initialize_body ::
  "'k prims \<Rightarrow> 'k DualSignatureProtocol \<Rightarrow> (js_error + unit) \<times> 'k DualSignatureProtocol" where
  "initialize_body P p =
     (case p_config p of
        None \<Rightarrow> (Inl TypeError, p)
      | Some c \<Rightarrow>
          (case resolve_seed c (p_account p) of
             Inl e \<Rightarrow> (Inl e, p)
           | Inr seed \<Rightarrow>
               (let p1 = p\<lparr>p_keyDerivation := Some (DualKeyDerivation_new seed)\<rparr> in
                case getAccountIndex c (p_account p1) of
                  Inl e \<Rightarrow> (Inl e, p1)
                | Inr a \<Rightarrow>
                    (let p2 = p1\<lparr>p_accountIndex := Some a\<rparr> in
                     case getAddressIndex c (p_account p2) of
                       Inl e \<Rightarrow> (Inl e, p2)
                     | Inr i \<Rightarrow>
                         (let p3 = p2\<lparr>p_addressIndex := Some i\<rparr> in
                          case init_ecdsa P c a i p3 of
                            (Inl e, p4) \<Rightarrow> (Inl e, p4)
                          | (Inr _, p4) \<Rightarrow>
                              (case init_mldsa P c a i p4 of
                                 (Inl e, p5) \<Rightarrow> (Inl e, p5)
                               | (Inr _, p5) \<Rightarrow> (Inr (), p5\<lparr>p_initialized := True\<rparr>)))))))"

text \<open>\<^verbatim>\<open>_initialize\<close> and the public \<^verbatim>\<open>initialize\<close>.\<close>

definition protocol_initialize ::
  "'k prims \<Rightarrow> 'k DualSignatureProtocol \<Rightarrow> (js_error + unit) \<times> 'k DualSignatureProtocol" where
  "protocol_initialize P p =
     (if p_initialized p then (Inr (), p)
      else (case initialize_body P p of
              (Inl e, p') \<Rightarrow> (Inl (InitFailed e), p')
            | (Inr u, p') \<Rightarrow> (Inr u, p')))"

definition DualSignatureProtocol_initialize ::
  "'k prims \<Rightarrow> 'k DualSignatureProtocol \<Rightarrow> (js_error + unit) \<times> 'k DualSignatureProtocol" where
  "DualSignatureProtocol_initialize P p = protocol_initialize P p"

definition isInitialized :: "'k DualSignatureProtocol \<Rightarrow> bool" where
  "isInitialized p = p_initialized p"

text \<open>\<^verbatim>\<open>_ensureInitialized\<close>. The condition reads \<^verbatim>\<open>this._config.autoInitialize\<close> whenever the
  protocol is not initialized.\<close>

definition ensureInitialized ::
  "'k prims \<Rightarrow> 'k DualSignatureProtocol \<Rightarrow> (js_error + unit) \<times> 'k DualSignatureProtocol" where
  "ensureInitialized P p =
     (if p_initialized p then (Inr (), p)
      else (case p_config p of
              None \<Rightarrow> (Inl TypeError, p)
            | Some c \<Rightarrow>
                (if cfg_autoInitialize c then protocol_initialize P p
                 else (Inl (Error ''DualSignatureProtocol not initialized. Call initialize() first.''),
                       p))))"

text \<open>\<^verbatim>\<open>await this._ensureInitialized()\<close> followed by the rest of a method.\<close>

definition after_ensureInitialized ::
  "'k prims \<Rightarrow> 'k DualSignatureProtocol
     \<Rightarrow> ('k DualSignatureProtocol \<Rightarrow> js_error + 'a)
     \<Rightarrow> (js_error + 'a) \<times> 'k DualSignatureProtocol" where
  "after_ensureInitialized P p rest =
     (case ensureInitialized P p of
        (Inl e, p') \<Rightarrow> (Inl e, p')
      | (Inr _, p') \<Rightarrow> (rest p', p'))"

text \<open>The guard \<^verbatim>\<open>!this._config.ecdsaEnabled || !this._ecdsaSigner\<close> and its ML-DSA twin.\<close>

definition enabled_ecdsaSigner :: "'k DualSignatureProtocol \<Rightarrow> js_error + ECDSASigner" where
  "enabled_ecdsaSigner p =
     (case p_config p of
        None \<Rightarrow> Inl TypeError
      | Some c \<Rightarrow>
          (if \<not> cfg_ecdsaEnabled c then Inl (Error ''ECDSA signing is not enabled'')
           else (case p_ecdsaSigner p of
                   None \<Rightarrow> Inl (Error ''ECDSA signing is not enabled'')
                 | Some signer \<Rightarrow> Inr signer)))"

definition enabled_mldsaSigner :: "'k DualSignatureProtocol \<Rightarrow> js_error + MLDSASigner" where
  "enabled_mldsaSigner p =
     (case p_config p of
        None \<Rightarrow> Inl TypeError
      | Some c \<Rightarrow>
          (if \<not> cfg_mldsaEnabled c then Inl (Error ''ML-DSA signing is not enabled'')
           else (case p_mldsaSigner p of
                   None \<Rightarrow> Inl (Error ''ML-DSA signing is not enabled'')
                 | Some signer \<Rightarrow> Inr signer)))"

definition signWithECDSA ::
  "'k prims \<Rightarrow> 'k DualSignatureProtocol \<Rightarrow> jsval \<Rightarrow> sign_options
     \<Rightarrow> (js_error + ecdsa_signature) \<times> 'k DualSignatureProtocol" where
  "signWithECDSA P p data options =
     after_ensureInitialized P p (\<lambda>p'.
       case enabled_ecdsaSigner p' of
         Inl e \<Rightarrow> Inl e
       | Inr signer \<Rightarrow> ECDSASigner_sign P signer data options)"

definition signMessageWithECDSA ::
  "'k prims \<Rightarrow> 'k DualSignatureProtocol \<Rightarrow> jsval
     \<Rightarrow> (js_error + ecdsa_signature) \<times> 'k DualSignatureProtocol" where
  "signMessageWithECDSA P p message =
     after_ensureInitialized P p (\<lambda>p'.
       case enabled_ecdsaSigner p' of
         Inl e \<Rightarrow> Inl e
       | Inr signer \<Rightarrow> ECDSASigner_signMessage P signer message)"

definition signTransactionWithECDSA ::
  "'k prims \<Rightarrow> 'k DualSignatureProtocol \<Rightarrow> jsval
     \<Rightarrow> (js_error + (jsval \<times> ecdsa_signature)) \<times> 'k DualSignatureProtocol" where
  "signTransactionWithECDSA P p transaction =
     after_ensureInitialized P p (\<lambda>p'.
       case enabled_ecdsaSigner p' of
         Inl e \<Rightarrow> Inl e
       | Inr signer \<Rightarrow> ECDSASigner_signTransaction P signer transaction)"

definition signWithMLDSA ::
  "'k prims \<Rightarrow> 'k DualSignatureProtocol \<Rightarrow> nat \<Rightarrow> jsval \<Rightarrow> sign_options
     \<Rightarrow> (js_error + mldsa_signature) \<times> 'k DualSignatureProtocol" where
  "signWithMLDSA P p now data options =
     after_ensureInitialized P p (\<lambda>p'.
       case enabled_mldsaSigner p' of
         Inl e \<Rightarrow> Inl e
       | Inr signer \<Rightarrow> MLDSASigner_sign P signer now data options)"

record dual_signature =
  ds_ecdsa :: "ecdsa_signature option"
  ds_mldsa :: "mldsa_signature option"
  ds_data :: jsval
  ds_timestamp :: nat
  ds_accountIndex :: "nat option"
  ds_addressIndex :: "nat option"

text \<open>\<^verbatim>\<open>dualSign\<close>. Both branches of \<^verbatim>\<open>Promise.all\<close> are started, the classical one first;
  a disabled branch is \<^verbatim>\<open>Promise.resolve(null)\<close>; one rejection rejects the whole call.
  \<open>now_sign\<close> and \<open>now\<close> are the two readings of the clock.\<close>

definition dualSign ::
  "'k prims \<Rightarrow> 'k DualSignatureProtocol \<Rightarrow> nat \<Rightarrow> nat \<Rightarrow> jsval \<Rightarrow> sign_options
     \<Rightarrow> (js_error + dual_signature) \<times> 'k DualSignatureProtocol" where
  "dualSign P p now_sign now data options =
     (case ensureInitialized P p of
        (Inl e, p1) \<Rightarrow> (Inl e, p1)
      | (Inr _, p1) \<Rightarrow>
          (case p_config p1 of
             None \<Rightarrow> (Inl TypeError, p1)
           | Some c \<Rightarrow>
               (let (ecdsaResult, p2) =
                      (if cfg_ecdsaEnabled c
                       then (case signWithECDSA P p1 data options of
                               (Inl e, q) \<Rightarrow> (Inl e, q)
                             | (Inr sg, q) \<Rightarrow> (Inr (Some sg), q))
                       else (Inr None, p1));
                    (mldsaResult, p3) =
                      (if cfg_mldsaEnabled c
                       then (case signWithMLDSA P p2 now_sign data options of
                               (Inl e, q) \<Rightarrow> (Inl e, q)
                             | (Inr sg, q) \<Rightarrow> (Inr (Some sg), q))
                       else (Inr None, p2))
                in case (ecdsaResult, mldsaResult) of
                     (Inl e, _) \<Rightarrow> (Inl e, p3)
                   | (Inr _, Inl e) \<Rightarrow> (Inl e, p3)
                   | (Inr ecdsaSignature, Inr mldsaSignature) \<Rightarrow>
                       (Inr \<lparr>ds_ecdsa = ecdsaSignature, ds_mldsa = mldsaSignature,
                             ds_data = data, ds_timestamp = now,
                             ds_accountIndex = p_accountIndex p3,
                             ds_addressIndex = p_addressIndex p3\<rparr>, p3))))"

definition verifyECDSA ::
  "'k prims \<Rightarrow> 'k DualSignatureProtocol \<Rightarrow> jsval \<Rightarrow> jsval \<Rightarrow> jsval
     \<Rightarrow> (js_error + bool) \<times> 'k DualSignatureProtocol" where
  "verifyECDSA P p data signature publicKey =
     after_ensureInitialized P p (\<lambda>p'.
       case p_ecdsaSigner p' of
         None \<Rightarrow> Inl (Error ''ECDSA signer not available'')
       | Some signer \<Rightarrow> ECDSASigner_verify P signer data signature publicKey)"

definition verifyMLDSA ::
  "'k prims \<Rightarrow> 'k DualSignatureProtocol \<Rightarrow> jsval \<Rightarrow> jsval \<Rightarrow> jsval
     \<Rightarrow> (js_error + bool) \<times> 'k DualSignatureProtocol" where
  "verifyMLDSA P p data signature publicKey =
     after_ensureInitialized P p (\<lambda>p'.
       case p_mldsaSigner p' of
         None \<Rightarrow> Inl (Error ''ML-DSA signer not available'')
       | Some signer \<Rightarrow> MLDSASigner_verify P signer data signature publicKey)"

text \<open>The cache key \<^verbatim>\<open>`${this._accountIndex}-${this._addressIndex}`\<close>.\<close>

definition index_string :: "nat option \<Rightarrow> string" where
  "index_string n = (case n of None \<Rightarrow> ''null'' | Some k \<Rightarrow> dec k)"

definition cacheKey :: "'k DualSignatureProtocol \<Rightarrow> string" where
  "cacheKey p = index_string (p_accountIndex p) @ ''-'' @ index_string (p_addressIndex p)"

text \<open>\<^verbatim>\<open>signer ? f(signer) : null\<close>.\<close>

definition if_signer :: "'s option \<Rightarrow> ('s \<Rightarrow> js_error + 'a) \<Rightarrow> js_error + 'a option" where
  "if_signer signer f =
     (case signer of
        None \<Rightarrow> Inr None
      | Some s \<Rightarrow> (case f s of Inl e \<Rightarrow> Inl e | Inr v \<Rightarrow> Inr (Some v)))"

definition compute_publicKeys ::
  "'k prims \<Rightarrow> 'k DualSignatureProtocol \<Rightarrow> js_error + dual_public_keys" where
  "compute_publicKeys P p =
     (case if_signer (p_ecdsaSigner p) (ECDSASigner_getPublicKey P) of
        Inl e \<Rightarrow> Inl e
      | Inr e \<Rightarrow>
          (case if_signer (p_mldsaSigner p) (MLDSASigner_getPublicKey P) of
             Inl err \<Rightarrow> Inl err
           | Inr m \<Rightarrow> Inr \<lparr>pk_ecdsa = e, pk_mldsa = m\<rparr>))"

definition getPublicKeys ::
  "'k prims \<Rightarrow> 'k DualSignatureProtocol
     \<Rightarrow> (js_error + dual_public_keys) \<times> 'k DualSignatureProtocol" where
  "getPublicKeys P p =
     (case ensureInitialized P p of
        (Inl e, p') \<Rightarrow> (Inl e, p')
      | (Inr _, p') \<Rightarrow>
          (case p_publicKeyCache p' (cacheKey p') of
             Some cached \<Rightarrow> (Inr cached, p')
           | None \<Rightarrow>
               (case compute_publicKeys P p' of
                  Inl e \<Rightarrow> (Inl e, p')
                | Inr publicKeys \<Rightarrow>
                    (Inr publicKeys,
                     p'\<lparr>p_publicKeyCache := (p_publicKeyCache p')(cacheKey p' \<mapsto> publicKeys)\<rparr>))))"

definition compute_addresses ::
  "'k prims \<Rightarrow> 'k DualSignatureProtocol \<Rightarrow> js_error + dual_addresses" where
  "compute_addresses P p =
     (case if_signer (p_ecdsaSigner p) (ECDSASigner_getAddress P) of
        Inl e \<Rightarrow> Inl e
      | Inr ethereum \<Rightarrow>
          (case if_signer (p_ecdsaSigner p) (ECDSASigner_getChecksumAddress P) of
             Inl e \<Rightarrow> Inl e
           | Inr ethereumChecksum \<Rightarrow>
               (case if_signer (p_mldsaSigner p) (MLDSASigner_getAddress P) of
                  Inl e \<Rightarrow> Inl e
                | Inr mldsa \<Rightarrow>
                    (case if_signer (p_mldsaSigner p) (MLDSASigner_getAddressFormats P) of
                       Inl e \<Rightarrow> Inl e
                     | Inr mldsaFormats \<Rightarrow>
                         Inr \<lparr>addr_ethereum = ethereum,
                              addr_ethereumChecksum = ethereumChecksum, addr_mldsa = mldsa,
                              addr_mldsaFormats = mldsaFormats\<rparr>))))"

definition getAddresses ::
  "'k prims \<Rightarrow> 'k DualSignatureProtocol
     \<Rightarrow> (js_error + dual_addresses) \<times> 'k DualSignatureProtocol" where
  "getAddresses P p =
     (case ensureInitialized P p of
        (Inl e, p') \<Rightarrow> (Inl e, p')
      | (Inr _, p') \<Rightarrow>
          (case p_addressCache p' (cacheKey p') of
             Some cached \<Rightarrow> (Inr cached, p')
           | None \<Rightarrow>
               (case compute_addresses P p' of
                  Inl e \<Rightarrow> (Inl e, p')
                | Inr addresses \<Rightarrow>
                    (Inr addresses,
                     p'\<lparr>p_addressCache := (p_addressCache p')(cacheKey p' \<mapsto> addresses)\<rparr>))))"

record fingerprints =
  fp_ecdsa :: "string option"
  fp_mldsa :: "string option"

definition getFingerprints ::
  "'k prims \<Rightarrow> 'k DualSignatureProtocol
     \<Rightarrow> (js_error + fingerprints) \<times> 'k DualSignatureProtocol" where
  "getFingerprints P p =
     after_ensureInitialized P p (\<lambda>p'.
       case if_signer (p_ecdsaSigner p')
              (\<lambda>s. case ECDSASigner_getPublicKey P s of
                      Inl e \<Rightarrow> Inl e
                    | Inr k \<Rightarrow> Inr (take 16 (epk_compressed k))) of
         Inl e \<Rightarrow> Inl e
       | Inr e \<Rightarrow>
           (case if_signer (p_mldsaSigner p') (MLDSASigner_getFingerprint P) of
              Inl err \<Rightarrow> Inl err
            | Inr m \<Rightarrow> Inr \<lparr>fp_ecdsa = e, fp_mldsa = m\<rparr>))"

record exported_ecdsa =
  xe_address :: "string option"
  xe_checksumAddress :: "string option"
  xe_publicKey :: string
  xe_fingerprint :: "string option"
  xe_curve :: string

record exported_mldsa =
  xm_address :: "string option"
  xm_publicKey :: string
  xm_fingerprint :: "string option"
  xm_algorithm :: string

record exported_keys =
  x_ecdsa :: "exported_ecdsa option"
  x_mldsa :: "exported_mldsa option"
  x_accountIndex :: "nat option"
  x_addressIndex :: "nat option"

text \<open>The object literal that \<^verbatim>\<open>exportPublicKeys\<close> returns; \<^verbatim>\<open>publicKeys.ecdsa.compressed\<close>
  reads through a possibly \<^verbatim>\<open>null\<close> cache entry.\<close>

definition export_object ::
  "'k DualSignatureProtocol \<Rightarrow> dual_addresses \<Rightarrow> dual_public_keys \<Rightarrow> fingerprints
     \<Rightarrow> js_error + exported_keys" where
  "export_object p addresses publicKeys fps =
     (case (case p_ecdsaSigner p of
              None \<Rightarrow> Inr None
            | Some _ \<Rightarrow>
                (case pk_ecdsa publicKeys of
                   None \<Rightarrow> Inl TypeError
                 | Some k \<Rightarrow>
                     Inr (Some \<lparr>xe_address = addr_ethereum addresses,
                                xe_checksumAddress = addr_ethereumChecksum addresses,
                                xe_publicKey = epk_compressed k,
                                xe_fingerprint = fp_ecdsa fps,
                                xe_curve = ''secp256k1''\<rparr>))) of
        Inl e \<Rightarrow> Inl e
      | Inr ecdsa \<Rightarrow>
          (case (case p_mldsaSigner p of
                   None \<Rightarrow> Inr None
                 | Some _ \<Rightarrow>
                     (case pk_mldsa publicKeys of
                        None \<Rightarrow> Inl TypeError
                      | Some k \<Rightarrow>
                          (case p_config p of
                             None \<Rightarrow> Inl TypeError
                           | Some c \<Rightarrow>
                               Inr (Some \<lparr>xm_address = addr_mldsa addresses,
                                          xm_publicKey = mpk_hex k,
                                          xm_fingerprint = fp_mldsa fps,
                                          xm_algorithm = cfg_mldsaAlgorithm c\<rparr>)))) of
             Inl e \<Rightarrow> Inl e
           | Inr mldsa \<Rightarrow>
               Inr \<lparr>x_ecdsa = ecdsa, x_mldsa = mldsa, x_accountIndex = p_accountIndex p,
                    x_addressIndex = p_addressIndex p\<rparr>))"

definition exportPublicKeys ::
  "'k prims \<Rightarrow> 'k DualSignatureProtocol
     \<Rightarrow> (js_error + exported_keys) \<times> 'k DualSignatureProtocol" where
  "exportPublicKeys P p =
     (case ensureInitialized P p of
        (Inl e, p1) \<Rightarrow> (Inl e, p1)
      | (Inr _, p1) \<Rightarrow>
          (case getAddresses P p1 of
             (Inl e, p2) \<Rightarrow> (Inl e, p2)
           | (Inr addresses, p2) \<Rightarrow>
               (case getPublicKeys P p2 of
                  (Inl e, p3) \<Rightarrow> (Inl e, p3)
                | (Inr publicKeys, p3) \<Rightarrow>
                    (case getFingerprints P p3 of
                       (Inl e, p4) \<Rightarrow> (Inl e, p4)
                     | (Inr fps, p4) \<Rightarrow> (export_object p4 addresses publicKeys fps, p4)))))"

datatype signature_result =
    EcdsaResult ecdsa_signature
  | MldsaResult mldsa_signature
  | DualResult dual_signature

text \<open>\<^verbatim>\<open>sign\<close>: the dispatch on \<^verbatim>\<open>options.type || this._config.defaultSignatureType\<close>.\<close>

definition DualSignatureProtocol_sign ::
  "'k prims \<Rightarrow> 'k DualSignatureProtocol \<Rightarrow> nat \<Rightarrow> nat \<Rightarrow> jsval \<Rightarrow> sign_options
     \<Rightarrow> (js_error + signature_result) \<times> 'k DualSignatureProtocol" where
  "DualSignatureProtocol_sign P p now_sign now data options =
     (case (case o_type options of
              Some t \<Rightarrow>
                (if t \<noteq> [] then Inr t
                 else (case p_config p of
                         None \<Rightarrow> Inl TypeError
                       | Some c \<Rightarrow> Inr (cfg_defaultSignatureType c)))
            | None \<Rightarrow>
                (case p_config p of
                   None \<Rightarrow> Inl TypeError
                 | Some c \<Rightarrow> Inr (cfg_defaultSignatureType c))) of
        Inl e \<Rightarrow> (Inl e, p)
      | Inr signatureType \<Rightarrow>
          (if signatureType = ''ecdsa''
           then (case signWithECDSA P p data options of
                   (Inl e, q) \<Rightarrow> (Inl e, q)
                 | (Inr sg, q) \<Rightarrow> (Inr (EcdsaResult sg), q))
           else if signatureType = ''mldsa''
           then (case signWithMLDSA P p now_sign data options of
                   (Inl e, q) \<Rightarrow> (Inl e, q)
                 | (Inr sg, q) \<Rightarrow> (Inr (MldsaResult sg), q))
           else if signatureType = ''dual''
           then (case dualSign P p now_sign now data options of
                   (Inl e, q) \<Rightarrow> (Inl e, q)
                 | (Inr sg, q) \<Rightarrow> (Inr (DualResult sg), q))
           else (Inl (Error (''Invalid signature type: '' @ signatureType)), p)))"

record protocol_info =
  pi_initialized :: bool
  pi_ecdsaEnabled :: bool
  pi_mldsaEnabled :: bool
  pi_defaultSignatureType :: string
  pi_mldsaAlgorithm :: string
  pi_ecdsa :: "ecdsa_info option"
  pi_mldsa :: "mldsa_info option"
  pi_addresses :: dual_addresses
  pi_accountIndex :: "nat option"
  pi_addressIndex :: "nat option"

definition info_object ::
  "'k prims \<Rightarrow> 'k DualSignatureProtocol \<Rightarrow> dual_addresses \<Rightarrow> js_error + protocol_info" where
  "info_object P p addresses =
     (case p_config p of
        None \<Rightarrow> Inl TypeError
      | Some c \<Rightarrow>
          (case if_signer (p_ecdsaSigner p) (ECDSASigner_getInfo P) of
             Inl e \<Rightarrow> Inl e
           | Inr ecdsa \<Rightarrow>
               (case if_signer (p_mldsaSigner p) (MLDSASigner_getInfo P) of
                  Inl e \<Rightarrow> Inl e
                | Inr mldsa \<Rightarrow>
                    Inr \<lparr>pi_initialized = p_initialized p,
                         pi_ecdsaEnabled = cfg_ecdsaEnabled c,
                         pi_mldsaEnabled = cfg_mldsaEnabled c,
                         pi_defaultSignatureType = cfg_defaultSignatureType c,
                         pi_mldsaAlgorithm = cfg_mldsaAlgorithm c,
                         pi_ecdsa = ecdsa, pi_mldsa = mldsa, pi_addresses = addresses,
                         pi_accountIndex = p_accountIndex p,
                         pi_addressIndex = p_addressIndex p\<rparr>)))"

definition DualSignatureProtocol_getInfo ::
  "'k prims \<Rightarrow> 'k DualSignatureProtocol
     \<Rightarrow> (js_error + protocol_info) \<times> 'k DualSignatureProtocol" where
  "DualSignatureProtocol_getInfo P p =
     (case ensureInitialized P p of
        (Inl e, p1) \<Rightarrow> (Inl e, p1)
      | (Inr _, p1) \<Rightarrow>
          (case getAddresses P p1 of
             (Inl e, p2) \<Rightarrow> (Inl e, p2)
           | (Inr addresses, p2) \<Rightarrow> (info_object P p2 addresses, p2)))"

definition clearCaches :: "'k DualSignatureProtocol \<Rightarrow> 'k DualSignatureProtocol" where
  "clearCaches p = p\<lparr>p_addressCache := Map.empty, p_publicKeyCache := Map.empty\<rparr>"

text \<open>\<^verbatim>\<open>dispose\<close>. Each of the three owned objects is disposed behind the test that it is
  there, and its reference dropped; an exception of one of their \<^verbatim>\<open>dispose\<close> methods would
  leave the method at that point. Then the caches are cleared, and the account, the
  configuration and the initialized flag reset.\<close>

definition DualSignatureProtocol_dispose ::
  "'k DualSignatureProtocol \<Rightarrow> (js_error + unit) \<times> 'k DualSignatureProtocol" where
  "DualSignatureProtocol_dispose p =
     (case (if p_ecdsaSigner p \<noteq> None
            then (case method_call (p_ecdsaSigner p) ECDSASigner_dispose of
                    Inl e \<Rightarrow> Inl e
                  | Inr _ \<Rightarrow> Inr (p\<lparr>p_ecdsaSigner := None\<rparr>))
            else Inr p) of
        Inl e \<Rightarrow> (Inl e, p)
      | Inr p1 \<Rightarrow>
          (case (if p_mldsaSigner p1 \<noteq> None
                 then (case method_call (p_mldsaSigner p1) MLDSASigner_dispose of
                         Inl e \<Rightarrow> Inl e
                       | Inr _ \<Rightarrow> Inr (p1\<lparr>p_mldsaSigner := None\<rparr>))
                 else Inr p1) of
             Inl e \<Rightarrow> (Inl e, p1)
           | Inr p2 \<Rightarrow>
               (case (if p_keyDerivation p2 \<noteq> None
                      then (case method_call (p_keyDerivation p2) DualKeyDerivation_dispose of
                              Inl e \<Rightarrow> Inl e
                            | Inr _ \<Rightarrow> Inr (p2\<lparr>p_keyDerivation := None\<rparr>))
                      else Inr p2) of
                  Inl e \<Rightarrow> (Inl e, p2)
                | Inr p3 \<Rightarrow>
                    (Inr (), (clearCaches p3)\<lparr>p_initialized := False, p_account := None,
                                              p_config := None\<rparr>))))"

section \<open>The protocol as a state machine\<close>

text \<open>Every public method of the protocol is one operation. \<open>run_op\<close> runs it on a state and
  gives the outcome (an exception, or a normal return whose value is dropped) and the
  state it leaves behind.\<close>

datatype protocol_op =
    OpInitialize
  | OpIsInitialized
  | OpSignWithECDSA jsval sign_options
  | OpSignMessageWithECDSA jsval
  | OpSignTransactionWithECDSA jsval
  | OpSignWithMLDSA nat jsval sign_options
  | OpDualSign nat nat jsval sign_options
  | OpSign nat nat jsval sign_options
  | OpVerifyECDSA jsval jsval jsval
  | OpVerifyMLDSA jsval jsval jsval
  | OpGetPublicKeys
  | OpGetAddresses
  | OpGetFingerprints
  | OpExportPublicKeys
  | OpGetInfo
  | OpClearCaches
  | OpDispose

definition outcome :: "(js_error + 'a) \<times> 's \<Rightarrow> (js_error + unit) \<times> 's" where
  "outcome r = (case r of (Inl e, s) \<Rightarrow> (Inl e, s) | (Inr _, s) \<Rightarrow> (Inr (), s))"

fun run_op ::
  "'k prims \<Rightarrow> 'k DualSignatureProtocol \<Rightarrow> protocol_op
     \<Rightarrow> (js_error + unit) \<times> 'k DualSignatureProtocol" where
  "run_op P p OpInitialize = DualSignatureProtocol_initialize P p"
| "run_op P p OpIsInitialized = (Inr (), p)"
| "run_op P p (OpSignWithECDSA data options) = outcome (signWithECDSA P p data options)"
| "run_op P p (OpSignMessageWithECDSA message) = outcome (signMessageWithECDSA P p message)"
| "run_op P p (OpSignTransactionWithECDSA tx) = outcome (signTransactionWithECDSA P p tx)"
| "run_op P p (OpSignWithMLDSA now data options) = outcome (signWithMLDSA P p now data options)"
| "run_op P p (OpDualSign now_sign now data options) =
     outcome (dualSign P p now_sign now data options)"
| "run_op P p (OpSign now_sign now data options) =
     outcome (DualSignatureProtocol_sign P p now_sign now data options)"
| "run_op P p (OpVerifyECDSA data signature publicKey) =
     outcome (verifyECDSA P p data signature publicKey)"
| "run_op P p (OpVerifyMLDSA data signature publicKey) =
     outcome (verifyMLDSA P p data signature publicKey)"
| "run_op P p OpGetPublicKeys = outcome (getPublicKeys P p)"
| "run_op P p OpGetAddresses = outcome (getAddresses P p)"
| "run_op P p OpGetFingerprints = outcome (getFingerprints P p)"
| "run_op P p OpExportPublicKeys = outcome (exportPublicKeys P p)"
| "run_op P p OpGetInfo = outcome (DualSignatureProtocol_getInfo P p)"
| "run_op P p OpClearCaches = (Inr (), clearCaches p)"
| "run_op P p OpDispose = DualSignatureProtocol_dispose p"

text \<open>The operations that sign, verify, or query addresses and keys: all but
  \<^verbatim>\<open>initialize\<close>, \<^verbatim>\<open>isInitialized\<close>, \<^verbatim>\<open>clearCaches\<close> and \<^verbatim>\<open>dispose\<close>.\<close>

fun is_query_op :: "protocol_op \<Rightarrow> bool" where
  "is_query_op OpInitialize = False"
| "is_query_op OpIsInitialized = False"
| "is_query_op OpClearCaches = False"
| "is_query_op OpDispose = False"
| "is_query_op _ = True"

text \<open>A sequence of calls, whatever their outcomes.\<close>

fun run_ops ::
  "'k prims \<Rightarrow> 'k DualSignatureProtocol \<Rightarrow> protocol_op list \<Rightarrow> 'k DualSignatureProtocol" where
  "run_ops P p [] = p"
| "run_ops P p (x # xs) = run_ops P (snd (run_op P p x)) xs"

section \<open>A test double of the libraries\<close>

text \<open>Concrete stand-ins for the library functions, small enough to run the model on
  concrete inputs: an HD node is its seed, every hash is the identity, the extendable
  output function returns zeros of the requested length, the post-quantum library is
  not installed, the curve signs a hash with itself and verifies compact bytes only,
  and every point is the same point.\<close>

definition stub_prims :: "bytes prims" where
  "stub_prims =
     \<lparr>mnemonicToSeed = (\<lambda>m. Some (replicate 64 0)),
      fromMasterSeed = (\<lambda>b. Some b),
      hd_derive = (\<lambda>k path.
        Some \<lparr>dn_privateKey = Some (replicate 32 (of_nat (length path))),
              dn_publicKey = Some (replicate 33 2),
              dn_chainCode = Some (replicate 32 1)\<rparr>),
      sha256 = (\<lambda>b. b),
      sha3_256 = (\<lambda>b. b),
      keccak_256 = (\<lambda>b. b),
      shake256 = (\<lambda>b n. replicate n 0),
      hexToBytes = (\<lambda>s. if s = [] then Some [] else None),
      bytesToHex_of_string = (\<lambda>s. Some s),
      JSON_stringify = (\<lambda>v. None),
      ml_dsa65_keygen = None,
      ml_dsa_65 = None,
      secp_sign = (\<lambda>h k.
        case k of
          None \<Rightarrow> None
        | Some key \<Rightarrow>
            Some \<lparr>sg_r = length h, sg_s = length key, sg_recovery = 0,
                  sg_compactHex = bytesToHex h\<rparr>),
      secp_verify = (\<lambda>sig h pub. case sig of JBytes b \<Rightarrow> Some (b = h) | _ \<Rightarrow> None),
      point_toRawBytes = (\<lambda>b c. Some (if c then replicate 33 2 else 4 # replicate 64 2))\<rparr>"

text \<open>The mock account of the repository's test script, and protocols built on it.\<close>

definition mock_account :: account where
  "mock_account =
     \<lparr>acc_getSeed = Some (JStr ''abandon abandon about''), acc_seed = JUndefined,
      acc_getAccountIndex = Some 0, acc_accountIndex = None,
      acc_getAddressIndex = Some 0, acc_addressIndex = None\<rparr>"

text \<open>A placeholder post-quantum signer, as the constructor builds it from a key pair
  that names its algorithm as the size table does and carries the placeholder flag.\<close>

definition mock_signer :: MLDSASigner where
  "mock_signer =
     \<lparr>ms_privateKey = Some (replicate 4032 0), ms_publicKey = Some (replicate 1952 0),
      ms_seed = Some (replicate 32 7), ms_path = Some [], ms_algorithm = ''ML_DSA_65'',
      ms_securityLevel = 3, ms_accountIndex = 0, ms_addressIndex = 0,
      ms_hasRealImplementation = False\<rparr>"

section \<open>Path segments\<close>

text \<open>The segments of a path string: the pieces between the separators.\<close>

fun split_on :: "char \<Rightarrow> string \<Rightarrow> string list" where
  "split_on c [] = [[]]"
| "split_on c (x # xs) =
     (if x = c then [] # split_on c xs
      else (case split_on c xs of [] \<Rightarrow> [[x]] | w # ws \<Rightarrow> (x # w) # ws))"

text \<open>What \<^verbatim>\<open>dispose\<close> leaves behind: no configuration object, and the flag down.\<close>

definition disposed :: "'k DualSignatureProtocol \<Rightarrow> bool" where
  "disposed p = (p_config p = None \<and> \<not> p_initialized p)"

text \<open>A freshly constructed protocol on the mock account.\<close>

definition mock_protocol :: "user_config \<Rightarrow> bytes DualSignatureProtocol" where
  "mock_protocol uc = projr (DualSignatureProtocol_new (Some mock_account) uc)"

text \<open>The configuration of the repository's disabled-algorithm test: the classical
  algorithm only.\<close>

definition ecdsa_only :: user_config where
  "ecdsa_only = default_config\<lparr>uc_mldsaEnabled := Some False\<rparr>"

text \<open>The options \<^verbatim>\<open>signMessage\<close> passes to \<^verbatim>\<open>sign\<close>, and a classical signer on the test
  double (the key pair that the mock protocol derives).\<close>

definition signMessage_options :: sign_options where
  "signMessage_options = no_options\<lparr>o_hashMessage := Some True, o_addPrefix := Some True\<rparr>"

definition mock_ecdsa_signer :: ECDSASigner where
  "mock_ecdsa_signer =
     \<lparr>es_privateKey = Some (replicate 32 16), es_publicKey = Some (replicate 33 2),
      es_path = Some ''m/44'/60'/0'/0/0'', es_accountIndex = 0, es_addressIndex = 0\<rparr>"

text \<open>A configuration with the post-quantum algorithm and auto-initialization both off.\<close>

definition manual_ecdsa_only :: user_config where
  "manual_ecdsa_only = ecdsa_only\<lparr>uc_autoInitialize := Some False\<rparr>"

section \<open>Verified properties\<close>

subsection \<open>Derivation paths\<close>

lemma dec_0: "dec 0 = ''0''"
  by (subst dec.simps) simp

lemma split_on_no_sep: "c \<notin> set w \<Longrightarrow> split_on c w = [w]"
  by (induction w) auto

lemma split_on_append: "c \<notin> set w \<Longrightarrow> split_on c (w @ c # rest) = w # split_on c rest"
  by (induction w) auto

lemma dec_digits: "set (dec n) \<subseteq> set ''0123456789''"
proof (induction n rule: dec.induct)
  case (1 n)
  have d: "\<And>k. k < 10 \<Longrightarrow> ''0123456789'' ! k \<in> set ''0123456789''"
    by (rule nth_mem) simp
  show ?case
  proof (cases "n < 10")
    case True
    then show ?thesis using d[of n] by (subst dec.simps) simp
  next
    case False
    have "n mod 10 < 10" by simp
    with 1 False d[of "n mod 10"] show ?thesis by (subst dec.simps) simp
  qed
qed

lemma dec_no_slash: "CHR ''/'' \<notin> set (dec n)"
proof
  assume "CHR ''/'' \<in> set (dec n)"
  then have "CHR ''/'' \<in> set ''0123456789''"
    using dec_digits[of n] by (rule subsetD[rotated])
  then show False by simp
qed

lemma buildPath_ECDSA:
  "buildPath ''ECDSA'' a i =
     Inr (''m/44'/60'' @ [CHR 0x27] @ ''/'' @ dec a @ [CHR 0x27] @ ''/0/'' @ dec i)"
  by (simp add: buildPath_def DERIVATION_PATHS_def)

lemma buildPath_MLDSA:
  "buildPath ''MLDSA'' a i =
     Inr (''m/44'/9000'' @ [CHR 0x27] @ ''/'' @ dec a @ [CHR 0x27] @ ''/0/'' @ dec i)"
  by (simp add: buildPath_def DERIVATION_PATHS_def)

lemma split_account_segments:
  "split_on CHR ''/'' (dec a @ [CHR 0x27] @ ''/0/'' @ dec i) = [dec a @ [CHR 0x27], ''0'', dec i]"
proof -
  have 1: "CHR ''/'' \<notin> set (dec a @ [CHR 0x27])" using dec_no_slash by simp
  have "split_on CHR ''/'' ((dec a @ [CHR 0x27]) @ CHR ''/'' # (''0/'' @ dec i))
        = (dec a @ [CHR 0x27]) # split_on CHR ''/'' (''0/'' @ dec i)"
    using 1 by (rule split_on_append)
  moreover have "split_on CHR ''/'' (''0/'' @ dec i) = [''0'', dec i]"
    using split_on_append[of "CHR ''/''" "''0''" "dec i"] split_on_no_sep[OF dec_no_slash, of i]
    by simp
  ultimately show ?thesis by simp
qed

lemma dec_3: "dec 3 = ''3''"
  by (subst dec.simps) simp

lemma dec_2147483647: "dec 2147483647 = ''2147483647''"
  by (simp add: dec.simps)

text \<open>
  Claim C6. For every account index \<open>a\<close> and address index \<open>i\<close> that are safe integers
  (below \<open>2^53\<close>, which covers the index range \<open>0 .. 2^31 - 1\<close> of BIP-32),
  \<^verbatim>\<open>getDerivationPaths(a, i)\<close> returns exactly the strings \<^verbatim>\<open>m/44'/60'/a'/0/i\<close> and
  \<^verbatim>\<open>m/44'/9000'/a'/0/i\<close>, the indices in plain decimal. Split at the separator, both paths
  have the six segments \<^verbatim>\<open>m, 44', <coin type>', a', 0, i\<close> and differ in the coin-type
  segment only. The call neither reads nor changes the derivation object: the result is
  the same for every object \<open>d\<close>, and the function returns no new state.
\<close>

theorem C6_derivation_paths:
  assumes "safe_integer a" and "safe_integer i"
  shows "getDerivationPaths d a i =
     Inr \<lparr>dp_ecdsa = ''m/44'/60'' @ [CHR 0x27] @ ''/'' @ dec a @ [CHR 0x27] @ ''/0/'' @ dec i,
          dp_mldsa = ''m/44'/9000'' @ [CHR 0x27] @ ''/'' @ dec a @ [CHR 0x27] @ ''/0/'' @ dec i\<rparr>
   \<and> split_on CHR ''/'' (''m/44'/60'' @ [CHR 0x27] @ ''/'' @ dec a @ [CHR 0x27] @ ''/0/'' @ dec i)
       = [''m'', ''44'' @ [CHR 0x27], ''60'' @ [CHR 0x27], dec a @ [CHR 0x27], ''0'', dec i]
   \<and> split_on CHR ''/'' (''m/44'/9000'' @ [CHR 0x27] @ ''/'' @ dec a @ [CHR 0x27] @ ''/0/'' @ dec i)
       = [''m'', ''44'' @ [CHR 0x27], ''9000'' @ [CHR 0x27], dec a @ [CHR 0x27], ''0'', dec i]"
  using split_account_segments[of a i]
  by (simp add: getDerivationPaths_def buildPath_ECDSA buildPath_MLDSA split: list.splits)

theorem C6_derivation_paths_witness:
  "safe_integer 3 \<and> safe_integer 2147483647
   \<and> getDerivationPaths
        (DualKeyDerivation_new (JStr ''abandon abandon about'') :: bytes DualKeyDerivation)
        3 2147483647
       = Inr \<lparr>dp_ecdsa = ''m/44'/60'/3'/0/2147483647'',
              dp_mldsa = ''m/44'/9000'/3'/0/2147483647''\<rparr>
   \<and> split_on CHR ''/'' ''m/44'/60'/3'/0/2147483647''
       = [''m'', ''44'' @ [CHR 0x27], ''60'' @ [CHR 0x27], ''3'' @ [CHR 0x27], ''0'',
          ''2147483647'']
   \<and> split_on CHR ''/'' ''m/44'/9000'/3'/0/2147483647''
       = [''m'', ''44'' @ [CHR 0x27], ''9000'' @ [CHR 0x27], ''3'' @ [CHR 0x27], ''0'',
          ''2147483647'']"
proof -
  have s: "safe_integer 3" "safe_integer 2147483647"
    by (simp_all add: safe_integer_def)
  from C6_derivation_paths[OF s,
      where d = "DualKeyDerivation_new (JStr ''abandon abandon about'') :: bytes DualKeyDerivation"]
  show ?thesis using s by (simp add: dec_3 dec_2147483647)
qed

lemma derivation_paths_at_origin:
  "getDerivationPaths d 0 0 =
     Inr \<lparr>dp_ecdsa = ''m/44'/60'/0'/0/0'', dp_mldsa = ''m/44'/9000'/0'/0/0''\<rparr>"
  by (simp add: getDerivationPaths_def buildPath_def DERIVATION_PATHS_def dec_0)

subsection \<open>Running the model on the test double\<close>

lemma mock_ready:
  "DualSignatureProtocol_initialize stub_prims (mock_protocol ecdsa_only) =
     (Inr (), (mock_protocol ecdsa_only)\<lparr>
        p_keyDerivation := Some \<lparr>kd_seed = JStr ''abandon abandon about'',
                                 kd_masterKey = Some (replicate 64 0),
                                 kd_masterSeed = Some (replicate 64 0), kd_initialized = True\<rparr>,
        p_accountIndex := Some 0, p_addressIndex := Some 0,
        p_ecdsaSigner := Some \<lparr>es_privateKey = Some (replicate 32 16),
                                es_publicKey = Some (replicate 33 2),
                                es_path = Some ''m/44'/60'/0'/0/0'', es_accountIndex = 0,
                                es_addressIndex = 0\<rparr>,
        p_initialized := True\<rparr>)"
  by (simp add: DualSignatureProtocol_initialize_def protocol_initialize_def initialize_body_def
        mock_protocol_def DualSignatureProtocol_new_def ecdsa_only_def default_config_def
        mock_account_def resolve_seed_def getAccountIndex_def getAddressIndex_def
        init_ecdsa_def init_mldsa_def DualKeyDerivation_new_def deriveECDSAKey_def
        kd_initialize_def stub_prims_def buildPath_def DERIVATION_PATHS_def dec_0
        masterKey_derive_def ECDSASigner_new_def)

lemma mock_signer_constructed:
  "MLDSASigner_new
     (Some \<lparr>km_privateKey = Some (replicate 4032 0), km_publicKey = Some (replicate 1952 0),
            km_seed = Some (replicate 32 7), km_path = None, km_type = None,
            km_algorithm = Some ''ML_DSA_65'', km_securityLevel = None,
            km_accountIndex = None, km_addressIndex = None, km_placeholder = Some True\<rparr>)
     = Inr mock_signer"
  by (simp add: MLDSASigner_new_def validateKeySizes_def ML_DSA_LEVELS_def mock_signer_def)

lemma mock_ready_initialized:
  "isInitialized (snd (run_op stub_prims (mock_protocol ecdsa_only) OpInitialize))"
  by (simp add: mock_ready isInitialized_def)

subsection \<open>Disposal\<close>

lemma ECDSASigner_dispose_returns: "\<exists>t. ECDSASigner_dispose s = Inr t"
  by (cases "es_privateKey s") (simp_all add: ECDSASigner_dispose_def method_call_def)

lemma MLDSASigner_dispose_returns: "\<exists>t. MLDSASigner_dispose s = Inr t"
  by (cases "ms_privateKey s"; cases "ms_seed s")
     (simp_all add: MLDSASigner_dispose_def method_call_def)

lemma DualKeyDerivation_dispose_returns: "\<exists>t. DualKeyDerivation_dispose d = Inr t"
  by (cases "kd_masterKey d"; cases "kd_masterSeed d")
     (simp_all add: DualKeyDerivation_dispose_def method_call_def Let_def)

lemma dispose_ecdsaSigner:
  "(if p_ecdsaSigner p \<noteq> None
    then (case method_call (p_ecdsaSigner p) ECDSASigner_dispose of
            Inl e \<Rightarrow> Inl e
          | Inr _ \<Rightarrow> Inr (p\<lparr>p_ecdsaSigner := None\<rparr>))
    else Inr p) = Inr (p\<lparr>p_ecdsaSigner := None\<rparr>)"
proof (cases "p_ecdsaSigner p")
  case None
  then have "p\<lparr>p_ecdsaSigner := None\<rparr> = p" by (cases p) simp
  with None show ?thesis by simp
next
  case (Some s)
  from ECDSASigner_dispose_returns[of s] obtain t where "ECDSASigner_dispose s = Inr t" ..
  with Some show ?thesis by (simp add: method_call_def)
qed

lemma dispose_mldsaSigner:
  "(if p_mldsaSigner p \<noteq> None
    then (case method_call (p_mldsaSigner p) MLDSASigner_dispose of
            Inl e \<Rightarrow> Inl e
          | Inr _ \<Rightarrow> Inr (p\<lparr>p_mldsaSigner := None\<rparr>))
    else Inr p) = Inr (p\<lparr>p_mldsaSigner := None\<rparr>)"
proof (cases "p_mldsaSigner p")
  case None
  then have "p\<lparr>p_mldsaSigner := None\<rparr> = p" by (cases p) simp
  with None show ?thesis by simp
next
  case (Some s)
  from MLDSASigner_dispose_returns[of s] obtain t where "MLDSASigner_dispose s = Inr t" ..
  with Some show ?thesis by (simp add: method_call_def)
qed

lemma dispose_keyDerivation:
  "(if p_keyDerivation p \<noteq> None
    then (case method_call (p_keyDerivation p) DualKeyDerivation_dispose of
            Inl e \<Rightarrow> Inl e
          | Inr _ \<Rightarrow> Inr (p\<lparr>p_keyDerivation := None\<rparr>))
    else Inr p) = Inr (p\<lparr>p_keyDerivation := None\<rparr>)"
proof (cases "p_keyDerivation p")
  case None
  then have "p\<lparr>p_keyDerivation := None\<rparr> = p" by (cases p) simp
  with None show ?thesis by simp
next
  case (Some d)
  from DualKeyDerivation_dispose_returns[of d]
  obtain t where "DualKeyDerivation_dispose d = Inr t" ..
  with Some show ?thesis by (simp add: method_call_def)
qed

lemma dispose_result:
  "DualSignatureProtocol_dispose p =
     (Inr (), p\<lparr>p_ecdsaSigner := None, p_mldsaSigner := None, p_keyDerivation := None,
                p_addressCache := Map.empty, p_publicKeyCache := Map.empty,
                p_initialized := False, p_account := None, p_config := None\<rparr>)"
  unfolding DualSignatureProtocol_dispose_def dispose_ecdsaSigner sum.case
    dispose_mldsaSigner dispose_keyDerivation
  by (simp add: clearCaches_def)

lemma dispose_outcome: "fst (DualSignatureProtocol_dispose p) = Inr ()"
  by (simp add: dispose_result)

lemma dispose_disposed: "disposed (snd (DualSignatureProtocol_dispose p))"
  by (simp add: dispose_result disposed_def)

lemma dispose_twice:
  "snd (DualSignatureProtocol_dispose (snd (DualSignatureProtocol_dispose p)))
     = snd (DualSignatureProtocol_dispose p)"
  by (simp add: dispose_result)

text \<open>
  Claim C7. From every state of the protocol object (never initialized, ready, or
  already disposed: \<open>p\<close> is arbitrary) \<^verbatim>\<open>dispose()\<close> returns normally, since every method
  call in it and in the \<^verbatim>\<open>dispose\<close> methods it calls is behind a test of its receiver. A
  second \<^verbatim>\<open>dispose()\<close> right after it returns normally too and changes nothing more, and
  \<^verbatim>\<open>isInitialized()\<close> is false after either call.
\<close>

theorem C7_dispose_never_throws:
  "fst (DualSignatureProtocol_dispose p) = Inr ()
   \<and> \<not> isInitialized (snd (DualSignatureProtocol_dispose p))
   \<and> fst (DualSignatureProtocol_dispose (snd (DualSignatureProtocol_dispose p))) = Inr ()
   \<and> \<not> isInitialized (snd (DualSignatureProtocol_dispose (snd (DualSignatureProtocol_dispose p))))
   \<and> snd (DualSignatureProtocol_dispose (snd (DualSignatureProtocol_dispose p)))
       = snd (DualSignatureProtocol_dispose p)"
  using dispose_disposed[of p] dispose_twice[of p]
  by (simp add: dispose_outcome isInitialized_def disposed_def)

subsection \<open>The disposed state is absorbing\<close>

lemma ensureInitialized_disposed:
  "disposed q \<Longrightarrow> ensureInitialized P q = (Inl TypeError, q)"
  by (simp add: ensureInitialized_def disposed_def)

lemma protocol_initialize_disposed:
  "disposed q \<Longrightarrow> protocol_initialize P q = (Inl (InitFailed TypeError), q)"
  by (simp add: protocol_initialize_def initialize_body_def disposed_def)

lemma after_disposed:
  "disposed q \<Longrightarrow> after_ensureInitialized P q rest = (Inl TypeError, q)"
  by (simp add: after_ensureInitialized_def ensureInitialized_disposed)

lemma dualSign_disposed:
  "disposed q \<Longrightarrow> dualSign P q ns n data options = (Inl TypeError, q)"
  by (simp add: dualSign_def ensureInitialized_disposed)

lemma sign_disposed:
  "disposed q \<Longrightarrow>
     DualSignatureProtocol_sign P q ns n data options = (Inl TypeError, q)
     \<or> (\<exists>t. DualSignatureProtocol_sign P q ns n data options
             = (Inl (Error (''Invalid signature type: '' @ t)), q))"
  by (auto simp add: DualSignatureProtocol_sign_def signWithECDSA_def signWithMLDSA_def
        after_disposed dualSign_disposed disposed_def split: option.splits)

lemma run_op_disposed:
  assumes "disposed q"
  shows "disposed (snd (run_op P q op))"
    and "is_query_op op \<Longrightarrow>
           fst (run_op P q op) = Inl TypeError
           \<or> (\<exists>t. fst (run_op P q op) = Inl (Error (''Invalid signature type: '' @ t)))"
proof -
  show "disposed (snd (run_op P q op))"
  proof (cases op)
    case (OpSign ns n data options)
    then show ?thesis using sign_disposed[OF assms, of P ns n data options] assms
      by (auto simp: outcome_def)
  next
    case OpDispose
    then show ?thesis by (simp add: dispose_disposed)
  next
    case OpClearCaches
    then show ?thesis using assms by (simp add: clearCaches_def disposed_def)
  qed (use assms in \<open>simp_all add: outcome_def DualSignatureProtocol_initialize_def
         protocol_initialize_disposed signWithECDSA_def signMessageWithECDSA_def
         signTransactionWithECDSA_def signWithMLDSA_def verifyECDSA_def verifyMLDSA_def
         getFingerprints_def after_disposed dualSign_disposed getPublicKeys_def getAddresses_def
         exportPublicKeys_def DualSignatureProtocol_getInfo_def ensureInitialized_disposed\<close>)
  show "fst (run_op P q op) = Inl TypeError
           \<or> (\<exists>t. fst (run_op P q op) = Inl (Error (''Invalid signature type: '' @ t)))"
    if "is_query_op op"
  proof (cases op)
    case (OpSign ns n data options)
    then show ?thesis using sign_disposed[OF assms, of P ns n data options]
      by (auto simp: outcome_def)
  qed (use assms that in \<open>simp_all add: outcome_def
         signWithECDSA_def signMessageWithECDSA_def
         signTransactionWithECDSA_def signWithMLDSA_def verifyECDSA_def verifyMLDSA_def
         getFingerprints_def after_disposed dualSign_disposed getPublicKeys_def getAddresses_def
         exportPublicKeys_def DualSignatureProtocol_getInfo_def ensureInitialized_disposed\<close>)
qed

lemma run_ops_disposed: "disposed q \<Longrightarrow> disposed (run_ops P q ops)"
  by (induction ops arbitrary: q) (simp_all add: run_op_disposed(1))

text \<open>
  Claim C9. After \<^verbatim>\<open>dispose()\<close>, from whatever state and whatever the configuration was
  (\<^verbatim>\<open>autoInitialize\<close> included), every signing, verifying, address or key-query call
  throws: the \<open>TypeError\<close> of reading \<^verbatim>\<open>autoInitialize\<close> (or the default signature type)
  from the cleared configuration, or, for \<^verbatim>\<open>sign\<close> with an unknown explicit type, the
  invalid-type error. An explicit \<^verbatim>\<open>initialize()\<close> fails as well, and after any sequence
  of calls \<^verbatim>\<open>isInitialized()\<close> is still false.
\<close>

theorem C9_disposed_is_absorbing:
  "(is_query_op op \<longrightarrow>
      fst (run_op P (snd (DualSignatureProtocol_dispose p)) op) = Inl TypeError
      \<or> (\<exists>t. fst (run_op P (snd (DualSignatureProtocol_dispose p)) op)
                = Inl (Error (''Invalid signature type: '' @ t))))
   \<and> fst (run_op P (snd (DualSignatureProtocol_dispose p)) OpInitialize)
       = Inl (InitFailed TypeError)
   \<and> \<not> isInitialized (run_ops P (snd (DualSignatureProtocol_dispose p)) ops)"
  using run_op_disposed(2)[OF dispose_disposed[of p], of op P]
        run_ops_disposed[OF dispose_disposed[of p], of P ops]
        protocol_initialize_disposed[OF dispose_disposed[of p], of P]
  by (simp add: isInitialized_def disposed_def DualSignatureProtocol_initialize_def)

text \<open>The claim at a protocol that was ready (auto-initialization on) and then disposed.\<close>

theorem C9_disposed_is_absorbing_witness:
  "is_query_op OpGetAddresses
   \<and> isInitialized (snd (run_op stub_prims (mock_protocol ecdsa_only) OpInitialize))
   \<and> fst (run_op stub_prims
            (snd (DualSignatureProtocol_dispose
                    (snd (run_op stub_prims (mock_protocol ecdsa_only) OpInitialize))))
            OpGetAddresses) = Inl TypeError
   \<and> \<not> isInitialized
         (run_ops stub_prims
            (snd (DualSignatureProtocol_dispose
                    (snd (run_op stub_prims (mock_protocol ecdsa_only) OpInitialize))))
            [OpInitialize, OpGetAddresses, OpSignWithECDSA (JStr ''test'') no_options])"
  using C9_disposed_is_absorbing[of OpGetAddresses stub_prims
          "snd (DualSignatureProtocol_initialize stub_prims (mock_protocol ecdsa_only))"
          "[OpInitialize, OpGetAddresses, OpSignWithECDSA (JStr ''test'') no_options]"]
        mock_ready_initialized
  by (simp add: getAddresses_def outcome_def ensureInitialized_disposed[OF dispose_disposed])

subsection \<open>Determinism of the derivation\<close>

lemma kd_initialize_cases:
  "(\<exists>d'. kd_initialize P d = (Inr (), d') \<and> kd_initialized d')
   \<or> (\<exists>e. kd_initialize P d = (Inl e, d))"
proof (cases "kd_initialized d")
  case True
  then show ?thesis by (simp add: kd_initialize_def)
next
  case False
  then show ?thesis
    by (cases "kd_seed d") (simp_all add: kd_initialize_def split: option.splits)
qed

lemma kd_initialize_again:
  "kd_initialize P (snd (kd_initialize P d)) = kd_initialize P d"
proof -
  from kd_initialize_cases[of P d] show ?thesis
  proof
    assume "\<exists>d'. kd_initialize P d = (Inr (), d') \<and> kd_initialized d'"
    then obtain d' where "kd_initialize P d = (Inr (), d')" "kd_initialized d'" by blast
    then show ?thesis by (simp add: kd_initialize_def[of P d'])
  next
    assume "\<exists>e. kd_initialize P d = (Inl e, d)"
    then show ?thesis by auto
  qed
qed

lemma deriveECDSAKey_state: "snd (deriveECDSAKey P d a i) = snd (kd_initialize P d)"
  by (simp add: deriveECDSAKey_def split: prod.splits sum.splits option.splits)

lemma deriveMLDSAKey_state: "snd (deriveMLDSAKey P d a i) = snd (kd_initialize P d)"
  by (simp add: deriveMLDSAKey_def Let_def split: prod.splits sum.splits option.splits)

lemma deriveECDSAKey_after_initialize:
  "deriveECDSAKey P (snd (kd_initialize P d)) a i = deriveECDSAKey P d a i"
  by (simp add: deriveECDSAKey_def kd_initialize_again)

lemma deriveMLDSAKey_after_initialize:
  "deriveMLDSAKey P (snd (kd_initialize P d)) a i = deriveMLDSAKey P d a i"
  by (simp add: deriveMLDSAKey_def kd_initialize_again)

lemma deriveMLDSAKey_seed:
  assumes "fst (deriveMLDSAKey P d a i) = Inr km"
  shows "\<exists>k path n pk. hd_derive P k path = Some n \<and> dn_privateKey n = Some pk
           \<and> km_seed km = Some (take 32 pk)"
  using assms
  by (fastforce simp add: deriveMLDSAKey_def Let_def masterKey_derive_def
        split: prod.splits sum.splits option.splits)

lemma deriveBothKeys_state: "snd (deriveBothKeys P d a i) = snd (kd_initialize P d)"
proof -
  obtain r1 d1 where 1: "deriveECDSAKey P d a i = (r1, d1)" by (cases "deriveECDSAKey P d a i")
  obtain r2 d2 where 2: "deriveMLDSAKey P d1 a i = (r2, d2)" by (cases "deriveMLDSAKey P d1 a i")
  from 1 deriveECDSAKey_state[of P d a i] have d1: "d1 = snd (kd_initialize P d)" by simp
  from 2 deriveMLDSAKey_state[of P d1 a i] have d2: "d2 = snd (kd_initialize P d1)" by simp
  have "snd (deriveBothKeys P d a i) = d2"
    using 1 2 by (simp add: deriveBothKeys_def split: sum.splits)
  with d1 d2 show ?thesis by (simp add: kd_initialize_again)
qed

lemma deriveBothKeys_again:
  "fst (deriveBothKeys P (snd (deriveBothKeys P d a i)) a i) = fst (deriveBothKeys P d a i)"
proof -
  have 1: "deriveECDSAKey P (snd (kd_initialize P d)) a i = deriveECDSAKey P d a i"
    by (rule deriveECDSAKey_after_initialize)
  have 2: "deriveMLDSAKey P (snd (deriveECDSAKey P d a i)) a i = deriveMLDSAKey P d a i"
    by (simp add: deriveECDSAKey_state deriveMLDSAKey_after_initialize)
  show ?thesis
    unfolding deriveBothKeys_state
    by (simp add: deriveBothKeys_def[of P "snd (kd_initialize P d)"] 1 2
                  deriveBothKeys_def[of P d])
qed

lemma validateDeterministic_never_false:
  "fst (validateDeterministic P d a i) \<noteq> Inr False"
proof (cases "deriveBothKeys P d a i")
  case (Pair r1 d1)
  show ?thesis
  proof (cases r1)
    case (Inl e)
    with Pair show ?thesis by (simp add: validateDeterministic_def)
  next
    case (Inr keys1)
    from deriveBothKeys_again[of P d a i] Pair Inr
    have "fst (deriveBothKeys P d1 a i) = Inr keys1" by simp
    then obtain d2 where "deriveBothKeys P d1 a i = (Inr keys1, d2)"
      by (cases "deriveBothKeys P d1 a i") simp
    with Pair Inr show ?thesis
      by (simp add: validateDeterministic_def hex_equal_def split: option.splits)
  qed
qed

text \<open>
  Claim C5. A call of \<^verbatim>\<open>deriveECDSAKey\<close> gives the same outcome, the same key record (private
  key, public key, chain code, path) or the same exception, on a derivation object in
  any state and on that object after an earlier call of \<^verbatim>\<open>deriveECDSAKey\<close> or
  \<^verbatim>\<open>deriveMLDSAKey\<close> with any indices: the first call initializes the object and the later
  ones reuse the master key. The same holds for \<^verbatim>\<open>deriveMLDSAKey\<close> (sub-seed and generated
  keys). So \<^verbatim>\<open>validateDeterministic\<close>, which derives twice and compares, never returns
  \<^verbatim>\<open>false\<close>. The sub-seed is the first 32 bytes of the derived private key, so it has 32
  bytes whenever the HD primitive returns private keys of 32 bytes.
\<close>

theorem C5_derivation_is_deterministic:
  "fst (deriveECDSAKey P (snd (deriveECDSAKey P d a' i')) a i) = fst (deriveECDSAKey P d a i)
   \<and> fst (deriveMLDSAKey P (snd (deriveMLDSAKey P d a' i')) a i) = fst (deriveMLDSAKey P d a i)
   \<and> fst (deriveECDSAKey P (snd (deriveMLDSAKey P d a' i')) a i) = fst (deriveECDSAKey P d a i)
   \<and> fst (deriveMLDSAKey P (snd (deriveECDSAKey P d a' i')) a i) = fst (deriveMLDSAKey P d a i)
   \<and> fst (validateDeterministic P d a i) \<noteq> Inr False
   \<and> ((\<forall>k path n pk. hd_derive P k path = Some n \<longrightarrow> dn_privateKey n = Some pk
          \<longrightarrow> length pk = 32)
        \<longrightarrow> (\<forall>km. fst (deriveMLDSAKey P d a i) = Inr km
               \<longrightarrow> (\<exists>sd. km_seed km = Some sd \<and> length sd = 32)))"
proof -
  have "\<exists>sd. km_seed km = Some sd \<and> length sd = 32"
    if c: "\<forall>k path n pk. hd_derive P k path = Some n \<longrightarrow> dn_privateKey n = Some pk
             \<longrightarrow> length pk = 32"
      and r: "fst (deriveMLDSAKey P d a i) = Inr km" for km
  proof -
    from deriveMLDSAKey_seed[OF r] obtain k path n pk where
      "hd_derive P k path = Some n" "dn_privateKey n = Some pk" "km_seed km = Some (take 32 pk)"
      by blast
    with c show ?thesis by simp
  qed
  then show ?thesis
    by (simp add: deriveECDSAKey_state deriveMLDSAKey_state deriveECDSAKey_after_initialize
          deriveMLDSAKey_after_initialize validateDeterministic_never_false)
qed

lemma stub_mldsa:
  "fst (deriveMLDSAKey stub_prims (DualKeyDerivation_new (JStr ''abandon abandon about'')) 0 0)
     = Inr \<lparr>km_privateKey = Some (replicate 4032 0), km_publicKey = Some (replicate 1952 0),
            km_seed = Some (replicate 32 18), km_path = Some ''m/44'/9000'/0'/0/0'',
            km_type = Some ''ML-DSA'', km_algorithm = Some ''ML-DSA-65'',
            km_securityLevel = Some 3, km_accountIndex = Some 0, km_addressIndex = Some 0,
            km_placeholder = None\<rparr>"
  by (simp add: deriveMLDSAKey_def Let_def kd_initialize_def DualKeyDerivation_new_def
        stub_prims_def buildPath_def DERIVATION_PATHS_def masterKey_derive_def
        generateMLDSAFromSeed_def dec_0)

lemma stub_ecdsa:
  "fst (deriveECDSAKey stub_prims (DualKeyDerivation_new (JStr ''abandon abandon about'')) 0 0)
     = Inr \<lparr>ek_privateKey = replicate 32 16, ek_publicKey = Some (replicate 33 2),
            ek_chainCode = Some (replicate 32 1), ek_path = ''m/44'/60'/0'/0/0'',
            ek_type = ''ECDSA'', ek_curve = ''secp256k1'', ek_accountIndex = 0,
            ek_addressIndex = 0\<rparr>"
  by (simp add: deriveECDSAKey_def Let_def kd_initialize_def DualKeyDerivation_new_def
        stub_prims_def buildPath_def DERIVATION_PATHS_def masterKey_derive_def dec_0)

theorem C5_derivation_is_deterministic_witness:
  "fst (deriveECDSAKey stub_prims
          (snd (deriveECDSAKey stub_prims
                  (DualKeyDerivation_new (JStr ''abandon abandon about'')) 0 0)) 0 0)
     = Inr \<lparr>ek_privateKey = replicate 32 16, ek_publicKey = Some (replicate 33 2),
            ek_chainCode = Some (replicate 32 1), ek_path = ''m/44'/60'/0'/0/0'',
            ek_type = ''ECDSA'', ek_curve = ''secp256k1'', ek_accountIndex = 0,
            ek_addressIndex = 0\<rparr>
   \<and> (\<exists>km sd. fst (deriveMLDSAKey stub_prims
                      (snd (deriveMLDSAKey stub_prims
                         (DualKeyDerivation_new (JStr ''abandon abandon about'')) 0 0)) 0 0)
                  = Inr km
               \<and> km_seed km = Some sd \<and> length sd = 32)"
proof -
  have h: "\<forall>k path n pk. hd_derive stub_prims k path = Some n \<longrightarrow> dn_privateKey n = Some pk
             \<longrightarrow> length pk = 32"
    by (auto simp: stub_prims_def)
  from C5_derivation_is_deterministic[where P = stub_prims
          and d = "DualKeyDerivation_new (JStr ''abandon abandon about'')"
          and a = 0 and i = 0 and a' = 0 and i' = 0] h
  show ?thesis
    by (simp add: stub_ecdsa stub_mldsa)
qed

subsection \<open>Placeholder key material\<close>

lemma generate_placeholder:
  assumes "g_placeholder (generateMLDSAFromSeed P seed)"
  shows "g_privateKey (generateMLDSAFromSeed P seed) = replicate 4032 0
         \<and> g_publicKey (generateMLDSAFromSeed P seed) = replicate 1952 0"
proof (cases "case ml_dsa65_keygen P of
                None \<Rightarrow> None
              | Some keygen \<Rightarrow> keygen (if length seed = 32 then seed else take 32 seed)")
  case None
  then show ?thesis
    by (simp add: generateMLDSAFromSeed_def Let_def split del: if_split)
next
  case (Some kp)
  with assms show ?thesis
    by (cases kp) (simp add: generateMLDSAFromSeed_def Let_def split del: if_split)
qed

lemma generate_unavailable:
  "ml_dsa65_keygen P = None \<Longrightarrow> g_placeholder (generateMLDSAFromSeed P seed)"
  by (simp add: generateMLDSAFromSeed_def Let_def)

lemma generate_placeholder_iff:
  "g_placeholder (generateMLDSAFromSeed P seed)
     = ((case ml_dsa65_keygen P of
           None \<Rightarrow> None
         | Some keygen \<Rightarrow> keygen (if length seed = 32 then seed else take 32 seed)) = None)"
proof (cases "case ml_dsa65_keygen P of
                None \<Rightarrow> None
              | Some keygen \<Rightarrow> keygen (if length seed = 32 then seed else take 32 seed)")
  case None
  then show ?thesis
    by (simp add: generateMLDSAFromSeed_def Let_def split del: if_split)
next
  case (Some kp)
  then show ?thesis
    by (cases kp) (simp add: generateMLDSAFromSeed_def Let_def split del: if_split)
qed

text \<open>
  Claim C2, on the code. Whenever \<^verbatim>\<open>_generateMLDSAFromSeed\<close> takes its placeholder branch
  (the key generator is missing or throws, see \<open>generate_placeholder_iff\<close>), the two
  buffers have the sizes 4032 and 1952, and every byte of both is zero: the two SHA-256
  digests of the sub-seed are computed and dropped. So two different sub-seeds get the
  same placeholder keys, where the claim says the bytes are a hash expansion of the
  sub-seed.
\<close>

theorem C2_placeholder_keys_are_zero:
  "g_placeholder (generateMLDSAFromSeed P seed1) \<Longrightarrow>
   g_placeholder (generateMLDSAFromSeed P seed2) \<Longrightarrow>
     length (g_privateKey (generateMLDSAFromSeed P seed1)) = 4032
     \<and> length (g_publicKey (generateMLDSAFromSeed P seed1)) = 1952
     \<and> g_privateKey (generateMLDSAFromSeed P seed1) = replicate 4032 0
     \<and> g_publicKey (generateMLDSAFromSeed P seed1) = replicate 1952 0
     \<and> g_privateKey (generateMLDSAFromSeed P seed1) = g_privateKey (generateMLDSAFromSeed P seed2)
     \<and> g_publicKey (generateMLDSAFromSeed P seed1) = g_publicKey (generateMLDSAFromSeed P seed2)"
  by (simp add: generate_placeholder)

text \<open>Two different 32-byte sub-seeds, with the key generator not installed.\<close>

theorem C2_placeholder_keys_are_zero_witness:
  "replicate 32 (0::byte) \<noteq> replicate 32 1
   \<and> g_placeholder (generateMLDSAFromSeed stub_prims (replicate 32 0))
   \<and> g_placeholder (generateMLDSAFromSeed stub_prims (replicate 32 1))
   \<and> g_privateKey (generateMLDSAFromSeed stub_prims (replicate 32 0))
       = g_privateKey (generateMLDSAFromSeed stub_prims (replicate 32 1))
   \<and> g_publicKey (generateMLDSAFromSeed stub_prims (replicate 32 0))
       = g_publicKey (generateMLDSAFromSeed stub_prims (replicate 32 1))"
proof -
  have u: "ml_dsa65_keygen stub_prims = None" by (simp add: stub_prims_def)
  have ne: "replicate 32 (0::byte) \<noteq> replicate 32 1" by simp
  note c = C2_placeholder_keys_are_zero[OF generate_unavailable[OF u] generate_unavailable[OF u],
              of "replicate 32 0" "replicate 32 1"]
  from c have 1: "g_privateKey (generateMLDSAFromSeed stub_prims (replicate 32 0))
       = g_privateKey (generateMLDSAFromSeed stub_prims (replicate 32 1))" by (elim conjE)
  from c have 2: "g_publicKey (generateMLDSAFromSeed stub_prims (replicate 32 0))
       = g_publicKey (generateMLDSAFromSeed stub_prims (replicate 32 1))" by (elim conjE)
  show ?thesis
    by (intro conjI ne generate_unavailable[OF u] 1 2)
qed

text \<open>
  Claim C1, on the code. When the key generator is unavailable, the material that
  \<^verbatim>\<open>_generateMLDSAFromSeed\<close> produces is flagged as a placeholder, and the keys that
  \<^verbatim>\<open>deriveMLDSAKey\<close> returns are that material; but the object it returns has no
  \<^verbatim>\<open>__placeholder\<close> property. The \<^verbatim>\<open>MLDSASigner\<close> constructor throws on this object,
  because the algorithm name \<^verbatim>\<open>ML-DSA-65\<close> is not a key of \<^verbatim>\<open>ML_DSA_LEVELS\<close>; and with
  the name the table knows, the signer built from it reports
  \<^verbatim>\<open>hasRealImplementation() = true\<close>. The claim says the flag reaches the signer and the
  signer reports false.
\<close>

theorem C1_placeholder_flag_is_dropped:
  assumes "ml_dsa65_keygen P = None"
      and "fst (deriveMLDSAKey P d a i) = Inr km"
  shows "(\<exists>sd. km_seed km = Some sd
            \<and> g_placeholder (generateMLDSAFromSeed P sd)
            \<and> km_privateKey km = Some (g_privateKey (generateMLDSAFromSeed P sd))
            \<and> km_publicKey km = Some (g_publicKey (generateMLDSAFromSeed P sd)))
       \<and> km_placeholder km = None
       \<and> MLDSASigner_new (Some km) = Inl (Error ''Unknown ML-DSA algorithm: ML-DSA-65'')
       \<and> (\<exists>signer. MLDSASigner_new (Some (km\<lparr>km_algorithm := Some ''ML_DSA_65''\<rparr>)) = Inr signer
              \<and> MLDSASigner_hasRealImplementation signer)"
proof -
  have "case fst (deriveMLDSAKey P d a i) of
          Inl e \<Rightarrow> True
        | Inr k \<Rightarrow>
            (\<exists>sd. km_seed k = Some sd
                \<and> g_placeholder (generateMLDSAFromSeed P sd)
                \<and> km_privateKey k = Some (g_privateKey (generateMLDSAFromSeed P sd))
                \<and> km_publicKey k = Some (g_publicKey (generateMLDSAFromSeed P sd)))
            \<and> km_placeholder k = None
            \<and> MLDSASigner_new (Some k) = Inl (Error ''Unknown ML-DSA algorithm: ML-DSA-65'')
            \<and> (\<exists>signer. MLDSASigner_new (Some (k\<lparr>km_algorithm := Some ''ML_DSA_65''\<rparr>)) = Inr signer
                   \<and> MLDSASigner_hasRealImplementation signer)"
    by (simp add: deriveMLDSAKey_def Let_def generate_unavailable[OF assms(1)]
          MLDSASigner_new_def validateKeySizes_def ML_DSA_LEVELS_def
          MLDSASigner_hasRealImplementation_def
          split: prod.splits sum.splits option.splits)
  with assms(2) show ?thesis by simp
qed

theorem C1_placeholder_flag_is_dropped_witness:
  "ml_dsa65_keygen stub_prims = None
   \<and> fst (deriveMLDSAKey stub_prims (DualKeyDerivation_new (JStr ''abandon abandon about'')) 0 0)
       = Inr \<lparr>km_privateKey = Some (replicate 4032 0), km_publicKey = Some (replicate 1952 0),
            km_seed = Some (replicate 32 18), km_path = Some ''m/44'/9000'/0'/0/0'',
            km_type = Some ''ML-DSA'', km_algorithm = Some ''ML-DSA-65'',
            km_securityLevel = Some 3, km_accountIndex = Some 0, km_addressIndex = Some 0,
            km_placeholder = None\<rparr>
   \<and> MLDSASigner_new (Some \<lparr>km_privateKey = Some (replicate 4032 0), km_publicKey = Some (replicate 1952 0),
            km_seed = Some (replicate 32 18), km_path = Some ''m/44'/9000'/0'/0/0'',
            km_type = Some ''ML-DSA'', km_algorithm = Some ''ML-DSA-65'',
            km_securityLevel = Some 3, km_accountIndex = Some 0, km_addressIndex = Some 0,
            km_placeholder = None\<rparr>) = Inl (Error ''Unknown ML-DSA algorithm: ML-DSA-65'')"
proof -
  have u: "ml_dsa65_keygen stub_prims = None" by (simp add: stub_prims_def)
  from C1_placeholder_flag_is_dropped[OF u stub_mldsa] have
    "MLDSASigner_new (Some \<lparr>km_privateKey = Some (replicate 4032 0), km_publicKey = Some (replicate 1952 0),
            km_seed = Some (replicate 32 18), km_path = Some ''m/44'/9000'/0'/0/0'',
            km_type = Some ''ML-DSA'', km_algorithm = Some ''ML-DSA-65'',
            km_securityLevel = Some 3, km_accountIndex = Some 0, km_addressIndex = Some 0,
            km_placeholder = None\<rparr>) = Inl (Error ''Unknown ML-DSA algorithm: ML-DSA-65'')"
    by (elim conjE)
  with u stub_mldsa show ?thesis by (intro conjI)
qed

subsection \<open>The digests of sign, signMessage and verify\<close>

lemma eip191_prefix_nonempty: "utf8ToBytes (eip191_prefix bytes) \<noteq> []"
  by (simp add: utf8ToBytes_def eip191_prefix_def)

lemma prefixed_differs: "utf8ToBytes (eip191_prefix bytes) @ bytes \<noteq> bytes"
  using eip191_prefix_nonempty[of bytes] by simp

lemma sign_messageHash_signMessage:
  "dataToBytes P message = Inr bytes \<Longrightarrow>
     ECDSASigner_sign_messageHash P message signMessage_options
       = Inr (keccak_256 P (utf8ToBytes (eip191_prefix bytes) @ bytes))"
  by (simp add: ECDSASigner_sign_messageHash_def ECDSASigner_sign_message_def
        signMessage_options_def no_options_def)

lemma sign_messageHash_default:
  "dataToBytes P data = Inr bytes \<Longrightarrow>
     ECDSASigner_sign_messageHash P data no_options = Inr (keccak_256 P bytes)"
  by (simp add: ECDSASigner_sign_messageHash_def ECDSASigner_sign_message_def no_options_def)

lemma verify_messageHash:
  "dataToBytes P data = Inr bytes \<Longrightarrow>
     ECDSASigner_verify_messageHash P data = Inr (keccak_256 P bytes)"
  by (simp add: ECDSASigner_verify_messageHash_def)

lemma sign_Inr:
  assumes "ECDSASigner_sign P s data options = Inr sg"
  shows "\<exists>h psig. ECDSASigner_sign_messageHash P data options = Inr h
           \<and> secp_sign P h (es_privateKey s) = Some psig
           \<and> bytesToHex_of_string P (padStart 64 CHR ''0'' (hex_of_nat (sg_r psig))) = Some (sig_r sg)
           \<and> bytesToHex_of_string P (padStart 64 CHR ''0'' (hex_of_nat (sg_s psig))) = Some (sig_s sg)
           \<and> sig_signature sg = sg_compactHex psig
           \<and> sig_messageHash sg = bytesToHex h"
proof (cases "ECDSASigner_sign_messageHash P data options")
  case (Inl e)
  with assms show ?thesis by (simp add: ECDSASigner_sign_def)
next
  case (Inr h)
  show ?thesis
  proof (cases "secp_sign P h (es_privateKey s)")
    case None
    with assms Inr show ?thesis by (simp add: ECDSASigner_sign_def)
  next
    case (Some psig)
    with assms Inr show ?thesis
      by (auto simp add: ECDSASigner_sign_def split: option.splits)
  qed
qed

lemma verify_object:
  assumes "dataToBytes P data = Inr bytes"
  shows "ECDSASigner_verify P s data (JObj kvs) publicKey
           = Inr (secp_verify P (JObj kvs) (keccak_256 P bytes)
                    (if truthy publicKey then publicKey else nullable_bytes (es_publicKey s))
                  = Some True)"
  using assms
  by (simp add: ECDSASigner_verify_def ECDSASigner_verify_body_def try_catch_def
        ECDSASigner_verify_messageHash_def Let_def split: option.splits)

text \<open>
  Claim C10. \<^verbatim>\<open>verify\<close> hashes the serialized data as it is: for every input it
  recomputes keccak-256 of the bytes of \<^verbatim>\<open>_dataToBytes\<close>, with no EIP-191 prefix.
  \<^verbatim>\<open>signMessage\<close> signs keccak-256 of the prefix followed by those bytes. The two hashed
  byte strings differ for every message, so the two digests differ unless keccak-256
  collides on them (they differ when the hash is injective). Hence
  \<^verbatim>\<open>verify(message, signMessage(message))\<close> asks the curve whether the signature fits
  the digest of the unprefixed message, which is not the digest that was signed.
\<close>

theorem C10_signMessage_verify_hash_mismatch:
  assumes "dataToBytes P message = Inr bytes"
  shows "ECDSASigner_verify_messageHash P message = Inr (keccak_256 P bytes)
       \<and> ECDSASigner_sign_messageHash P message signMessage_options
           = Inr (keccak_256 P (utf8ToBytes (eip191_prefix bytes) @ bytes))
       \<and> utf8ToBytes (eip191_prefix bytes) @ bytes \<noteq> bytes
       \<and> (inj (keccak_256 P) \<longrightarrow>
             keccak_256 P (utf8ToBytes (eip191_prefix bytes) @ bytes) \<noteq> keccak_256 P bytes)
       \<and> (\<forall>sg. ECDSASigner_signMessage P s message = Inr sg \<longrightarrow>
             (\<exists>psig. secp_sign P (keccak_256 P (utf8ToBytes (eip191_prefix bytes) @ bytes))
                        (es_privateKey s) = Some psig
                    \<and> sig_signature sg = sg_compactHex psig)
             \<and> ECDSASigner_verify P s message (ecdsa_signature_object sg) JNull
                 = Inr (secp_verify P (ecdsa_signature_object sg) (keccak_256 P bytes)
                          (nullable_bytes (es_publicKey s)) = Some True))"
proof -
  have a: "\<exists>psig. secp_sign P (keccak_256 P (utf8ToBytes (eip191_prefix bytes) @ bytes))
                        (es_privateKey s) = Some psig
                    \<and> sig_signature sg = sg_compactHex psig"
    if "ECDSASigner_signMessage P s message = Inr sg" for sg
  proof -
    from that have "ECDSASigner_sign P s message signMessage_options = Inr sg"
      by (simp add: ECDSASigner_signMessage_def signMessage_options_def)
    from sign_Inr[OF this] sign_messageHash_signMessage[OF assms] show ?thesis by auto
  qed
  have b: "ECDSASigner_verify P s message (ecdsa_signature_object sg) JNull
                 = Inr (secp_verify P (ecdsa_signature_object sg) (keccak_256 P bytes)
                          (nullable_bytes (es_publicKey s)) = Some True)" for sg
    using verify_object[OF assms, of s _ JNull] by (simp add: ecdsa_signature_object_def)
  have c: "keccak_256 P (utf8ToBytes (eip191_prefix bytes) @ bytes) \<noteq> keccak_256 P bytes"
    if "inj (keccak_256 P)"
    using that prefixed_differs[of bytes] by (auto dest: injD)
  show ?thesis
    using a b c verify_messageHash[OF assms] sign_messageHash_signMessage[OF assms]
      prefixed_differs[of bytes]
    by blast
qed

lemma stub_simps:
  "keccak_256 stub_prims b = b"
  "sha3_256 stub_prims b = b"
  "sha256 stub_prims b = b"
  "shake256 stub_prims b n = replicate n 0"
  "bytesToHex_of_string stub_prims x = Some x"
  "secp_sign stub_prims h (Some key)
     = Some \<lparr>sg_r = length h, sg_s = length key, sg_recovery = 0, sg_compactHex = bytesToHex h\<rparr>"
  "secp_verify stub_prims (JObj kvs) h pub = None"
  "secp_verify stub_prims (JBytes bs) h pub = Some (bs = h)"
  "ml_dsa_65 stub_prims = None"
  "ml_dsa65_keygen stub_prims = None"
  "JSON_stringify stub_prims v = None"
  by (simp_all add: stub_prims_def)

lemma stub_dataToBytes: "dataToBytes stub_prims (JStr ''hi'') = Inr (utf8ToBytes ''hi'')"
  by (simp add: dataToBytes_def)

lemma stub_keccak: "keccak_256 stub_prims = (\<lambda>b. b)"
  by (simp add: stub_prims_def)

lemma stub_signMessage:
  "\<exists>sg. ECDSASigner_signMessage stub_prims mock_ecdsa_signer (JStr ''hi'') = Inr sg"
  by (simp add: ECDSASigner_signMessage_def ECDSASigner_sign_def
        sign_messageHash_signMessage[OF stub_dataToBytes, unfolded signMessage_options_def]
        stub_simps mock_ecdsa_signer_def)

lemma stub_verify_object:
  "ECDSASigner_verify stub_prims mock_ecdsa_signer (JStr ''hi'') (JObj kvs) JNull = Inr False"
  by (simp add: verify_object[OF stub_dataToBytes] stub_simps)

theorem C10_signMessage_verify_hash_mismatch_witness:
  "dataToBytes stub_prims (JStr ''hi'') = Inr (utf8ToBytes ''hi'')
   \<and> inj (keccak_256 stub_prims)
   \<and> ECDSASigner_verify_messageHash stub_prims (JStr ''hi'') = Inr (utf8ToBytes ''hi'')
   \<and> ECDSASigner_sign_messageHash stub_prims (JStr ''hi'') signMessage_options
       = Inr (utf8ToBytes (eip191_prefix (utf8ToBytes ''hi'')) @ utf8ToBytes ''hi'')
   \<and> utf8ToBytes (eip191_prefix (utf8ToBytes ''hi'')) @ utf8ToBytes ''hi'' \<noteq> utf8ToBytes ''hi''
   \<and> (\<exists>sg. ECDSASigner_signMessage stub_prims mock_ecdsa_signer (JStr ''hi'') = Inr sg
          \<and> ECDSASigner_verify stub_prims mock_ecdsa_signer (JStr ''hi'')
                (ecdsa_signature_object sg) JNull = Inr False)"
proof -
  have i: "inj (keccak_256 stub_prims)" by (simp add: stub_keccak)
  from stub_signMessage obtain sg where
    sg: "ECDSASigner_signMessage stub_prims mock_ecdsa_signer (JStr ''hi'') = Inr sg" ..
  have v: "ECDSASigner_verify stub_prims mock_ecdsa_signer (JStr ''hi'')
                (ecdsa_signature_object sg) JNull = Inr False"
    by (simp add: ecdsa_signature_object_def stub_verify_object)
  from C10_signMessage_verify_hash_mismatch[OF stub_dataToBytes, of mock_ecdsa_signer] i sg v stub_dataToBytes
  show ?thesis by (simp add: stub_keccak)
qed

subsection \<open>The round trip of sign and verify\<close>

text \<open>
  Claim C3, on the code. With default options \<^verbatim>\<open>sign\<close> and \<^verbatim>\<open>verify\<close> of the classical
  signer hash the same bytes, but \<^verbatim>\<open>verify(data, sign(data))\<close> hands the curve's
  \<^verbatim>\<open>verify\<close> the object that the wrapper returned, not a signature of the curve: its
  \<^verbatim>\<open>r\<close> and \<^verbatim>\<open>s\<close> are strings, each the result of \<^verbatim>\<open>bytesToHex\<close> applied to a string.
  The round trip is true exactly when the curve accepts that object. (When
  \<^verbatim>\<open>bytesToHex\<close> rejects strings, \<^verbatim>\<open>sign\<close> itself throws, see
  \<open>sign_raises_when_bytesToHex_rejects_strings\<close>.)
\<close>

theorem C3_ecdsa_verify_is_handed_the_wrapper_object:
  assumes "dataToBytes P data = Inr bytes"
      and "ECDSASigner_sign P s data no_options = Inr sg"
  shows "ECDSASigner_verify P s data (ecdsa_signature_object sg) JNull
           = Inr (secp_verify P (ecdsa_signature_object sg) (keccak_256 P bytes)
                    (nullable_bytes (es_publicKey s)) = Some True)
       \<and> (\<exists>psig. secp_sign P (keccak_256 P bytes) (es_privateKey s) = Some psig
              \<and> bytesToHex_of_string P (padStart 64 CHR ''0'' (hex_of_nat (sg_r psig)))
                  = Some (sig_r sg)
              \<and> bytesToHex_of_string P (padStart 64 CHR ''0'' (hex_of_nat (sg_s psig)))
                  = Some (sig_s sg)
              \<and> sig_signature sg = sg_compactHex psig)"
proof -
  have v: "ECDSASigner_verify P s data (ecdsa_signature_object sg) JNull
           = Inr (secp_verify P (ecdsa_signature_object sg) (keccak_256 P bytes)
                    (nullable_bytes (es_publicKey s)) = Some True)"
    using verify_object[OF assms(1), of s _ JNull] by (simp add: ecdsa_signature_object_def)
  from sign_Inr[OF assms(2)] sign_messageHash_default[OF assms(1)]
  have "\<exists>psig. secp_sign P (keccak_256 P bytes) (es_privateKey s) = Some psig
              \<and> bytesToHex_of_string P (padStart 64 CHR ''0'' (hex_of_nat (sg_r psig)))
                  = Some (sig_r sg)
              \<and> bytesToHex_of_string P (padStart 64 CHR ''0'' (hex_of_nat (sg_s psig)))
                  = Some (sig_s sg)
              \<and> sig_signature sg = sg_compactHex psig"
    by auto
  with v show ?thesis by blast
qed

lemma sign_raises_when_bytesToHex_rejects_strings:
  assumes "\<And>x. bytesToHex_of_string P x = None"
  shows "\<exists>e. ECDSASigner_sign P s data options = Inl e"
  by (simp add: ECDSASigner_sign_def assms split: sum.splits option.splits)

lemma stub_sign:
  "\<exists>sg. ECDSASigner_sign stub_prims mock_ecdsa_signer (JStr ''hi'') no_options = Inr sg"
  by (simp add: ECDSASigner_sign_def sign_messageHash_default[OF stub_dataToBytes]
        stub_simps mock_ecdsa_signer_def)

lemma stub_verify_compact:
  "ECDSASigner_verify stub_prims mock_ecdsa_signer (JStr ''hi'') (JBytes (utf8ToBytes ''hi'')) JNull
     = Inr True"
  by (simp add: ECDSASigner_verify_def ECDSASigner_verify_body_def try_catch_def
        verify_messageHash[OF stub_dataToBytes] stub_simps)

text \<open>On the test double, whose curve accepts the compact bytes of its own signature and
  nothing else, the wrapper's object is refused and the round trip is false.\<close>

theorem C3_ecdsa_verify_is_handed_the_wrapper_object_witness:
  "dataToBytes stub_prims (JStr ''hi'') = Inr (utf8ToBytes ''hi'')
   \<and> (\<exists>sg. ECDSASigner_sign stub_prims mock_ecdsa_signer (JStr ''hi'') no_options = Inr sg
          \<and> ECDSASigner_verify stub_prims mock_ecdsa_signer (JStr ''hi'')
                (ecdsa_signature_object sg) JNull = Inr False)
   \<and> ECDSASigner_verify stub_prims mock_ecdsa_signer (JStr ''hi'') (JBytes (utf8ToBytes ''hi'')) JNull
       = Inr True"
proof -
  from stub_sign obtain sg where
    sg: "ECDSASigner_sign stub_prims mock_ecdsa_signer (JStr ''hi'') no_options = Inr sg" ..
  from C3_ecdsa_verify_is_handed_the_wrapper_object[OF stub_dataToBytes sg]
  have "ECDSASigner_verify stub_prims mock_ecdsa_signer (JStr ''hi'')
                (ecdsa_signature_object sg) JNull = Inr False"
    by (simp add: ecdsa_signature_object_def stub_simps)
  with sg stub_dataToBytes stub_verify_compact show ?thesis by blast
qed

text \<open>The post-quantum signer: when the library is not used (placeholder material, or no
  library), signing ends in the placeholder and verification in the size-only check, so
  the round trip holds as soon as the extendable-output function returns the requested
  number of bytes.\<close>

lemma signWithPlaceholder_Inr:
  assumes "map_of ML_DSA_LEVELS (ms_algorithm m) = Some lv"
  shows "\<exists>sg. signWithPlaceholder P m now message context deterministic = Inr sg
           \<and> msig_signature sg
               = shake256 P (sha3_256 P (sha3_256 P message
                    @ sha3_256 P (case ms_seed m of None \<Rightarrow> replicate 32 0 | Some s \<Rightarrow> s)
                    @ context)) (signatureSize lv)
           \<and> msig_placeholder sg"
  by (simp add: signWithPlaceholder_def MLDSASigner_getSignatureSize_def assms Let_def)

lemma mldsa_sign_placeholder_path:
  assumes "\<not> ms_hasRealImplementation m \<or> ml_dsa_65 P = None"
      and "dataToBytes P data = Inr message"
  shows "MLDSASigner_sign P m now data options
           = signWithPlaceholder P m now message
               (case o_context options of None \<Rightarrow> [] | Some c \<Rightarrow> c)
               (case o_deterministic options of None \<Rightarrow> True | Some b \<Rightarrow> b)"
  using assms
  by (auto simp add: MLDSASigner_sign_def signWithRealImplementation_def Let_def)

lemma mldsa_verify_size_only:
  assumes "\<not> ms_hasRealImplementation m \<or> ml_dsa_65 P = None"
      and "dataToBytes P data = Inr message"
      and "MLDSASigner_sigBytes P signature = Inr (Some sigBytes)"
  shows "MLDSASigner_verify P m data signature publicKey
           = Inr (MLDSASigner_size_check m sigBytes = Inr True)"
  using assms
  by (auto simp add: MLDSASigner_verify_def MLDSASigner_verify_body_def try_catch_def Let_def
        split: sum.splits)

lemma sigBytes_of_signature_object:
  "MLDSASigner_sigBytes P (mldsa_signature_object sg) = Inr (Some (JBytes (msig_signature sg)))"
  by (simp add: MLDSASigner_sigBytes_def mldsa_signature_object_def)

lemma mldsa_roundtrip:
  assumes lv: "map_of ML_DSA_LEVELS (ms_algorithm m) = Some lv"
      and ph: "\<not> ms_hasRealImplementation m \<or> ml_dsa_65 P = None"
      and xof: "\<And>h n. length (shake256 P h n) = n"
      and sg: "MLDSASigner_sign P m now data options = Inr sg"
  shows "MLDSASigner_verify P m data (mldsa_signature_object sg) JNull = Inr True"
proof -
  from sg obtain message where d: "dataToBytes P data = Inr message"
    by (cases "dataToBytes P data") (simp_all add: MLDSASigner_sign_def Let_def)
  let ?c = "case o_context options of None \<Rightarrow> [] | Some c \<Rightarrow> c"
  let ?d = "case o_deterministic options of None \<Rightarrow> True | Some b \<Rightarrow> b"
  from signWithPlaceholder_Inr[OF lv, of P now message ?c ?d] obtain sg' where
    1: "signWithPlaceholder P m now message ?c ?d = Inr sg'"
    and 2: "msig_signature sg'
              = shake256 P (sha3_256 P (sha3_256 P message
                    @ sha3_256 P (case ms_seed m of None \<Rightarrow> replicate 32 0 | Some s \<Rightarrow> s)
                    @ ?c)) (signatureSize lv)"
    by blast
  from sg 1 mldsa_sign_placeholder_path[OF ph d, where now = now and options = options]
  have "sg' = sg" by simp
  with 2 have "length (msig_signature sg) = signatureSize lv"
    by (simp add: xof)
  then have "MLDSASigner_size_check m (JBytes (msig_signature sg)) = Inr True"
    by (simp add: MLDSASigner_size_check_def MLDSASigner_getSignatureSize_def lv)
  with mldsa_verify_size_only[OF ph d sigBytes_of_signature_object[of P sg], of JNull]
  show ?thesis by simp
qed

subsection \<open>Verification never throws\<close>

lemma mock_signer_simps:
  "ms_hasRealImplementation mock_signer = False"
  "MLDSASigner_getSignatureSize mock_signer = Inr 3293"
  by (simp_all add: mock_signer_def MLDSASigner_getSignatureSize_def ML_DSA_LEVELS_def)

text \<open>
  Claim C8 as stated fails: a malformed signature can verify. On a signer with
  placeholder material, an object whose \<^verbatim>\<open>signature\<close> property is a string of 3293
  characters (no bytes at all) passes the size-only check, and \<^verbatim>\<open>verify\<close> returns true.
\<close>

theorem C8_malformed_signature_accepted:
  "MLDSASigner_verify stub_prims mock_signer (JStr ''hi'')
     (JObj [(''signature'', JStr (replicate 3293 CHR ''a''))]) JNull = Inr True"
proof -
  have s: "MLDSASigner_sigBytes stub_prims (JObj [(''signature'', JStr (replicate 3293 CHR ''a''))])
             = Inr (Some (JStr (replicate 3293 CHR ''a'')))"
    by (simp add: MLDSASigner_sigBytes_def)
  have "MLDSASigner_size_check mock_signer (JStr (replicate 3293 CHR ''a'')) = Inr True"
    by (simp add: MLDSASigner_size_check_def mock_signer_simps)
  with mldsa_verify_size_only[OF _ stub_dataToBytes s, of mock_signer JNull]
  show ?thesis by (simp add: mock_signer_simps)
qed

lemma ecdsa_verify_total:
  "ECDSASigner_verify P es data signature publicKey
     = Inr (ECDSASigner_verify_body P es data signature publicKey = Inr True)"
  by (cases "ECDSASigner_verify_body P es data signature publicKey")
     (simp_all add: ECDSASigner_verify_def try_catch_def)

lemma mldsa_verify_total:
  "MLDSASigner_verify P ms data signature publicKey
     = Inr (MLDSASigner_verify_body P ms data signature publicKey = Inr True)"
  by (cases "MLDSASigner_verify_body P ms data signature publicKey")
     (simp_all add: MLDSASigner_verify_def try_catch_def)

lemma mldsa_verify_body_malformed:
  "(\<exists>e. dataToBytes P data = Inl e) \<or> (\<exists>e. MLDSASigner_sigBytes P signature = Inl e)
     \<or> MLDSASigner_sigBytes P signature = Inr None
   \<Longrightarrow> MLDSASigner_verify_body P ms data signature publicKey \<noteq> Inr True"
  by (auto simp add: MLDSASigner_verify_body_def Let_def split: sum.splits)

lemma mldsa_sigBytes_shapes:
  "MLDSASigner_sigBytes P JUndefined = Inr None"
  "MLDSASigner_sigBytes P JNull = Inl TypeError"
  "MLDSASigner_sigBytes P (JBool b) = Inr None"
  "MLDSASigner_sigBytes P (JNum n) = Inr None"
  "map_of kvs ''signature'' = None \<Longrightarrow> MLDSASigner_sigBytes P (JObj kvs) = Inr None"
  "MLDSASigner_sigBytes P (JArr xs) = Inr None"
  "hexToBytes P h = None \<Longrightarrow> MLDSASigner_sigBytes P (JStr h) = Inl (External ''hexToBytes'')"
  by (simp_all add: MLDSASigner_sigBytes_def)

text \<open>
  Claim C8, amended. On both signers \<^verbatim>\<open>verify\<close> returns a boolean for every data, every
  signature value and every public key: it never throws. On the classical signer an
  exception anywhere inside (unsupported data, undecodable hexadecimal text, an
  exception of the curve) gives false. On the post-quantum signer unsupported data,
  undecodable hexadecimal text, \<^verbatim>\<open>null\<close> and a value from which no signature bytes can
  be taken give false; and when the library is not used, the result for any other
  signature is the size-only check.
\<close>

theorem C8_verify_never_throws:
  "(\<exists>b. ECDSASigner_verify P es data signature publicKey = Inr b)
   \<and> (\<exists>b. MLDSASigner_verify P ms data signature publicKey = Inr b)
   \<and> ((\<exists>e. ECDSASigner_verify_body P es data signature publicKey = Inl e)
        \<longrightarrow> ECDSASigner_verify P es data signature publicKey = Inr False)
   \<and> ((\<exists>e. dataToBytes P data = Inl e) \<or> (\<exists>e. MLDSASigner_sigBytes P signature = Inl e)
          \<or> MLDSASigner_sigBytes P signature = Inr None
        \<longrightarrow> MLDSASigner_verify P ms data signature publicKey = Inr False)
   \<and> ((\<not> ms_hasRealImplementation ms \<or> ml_dsa_65 P = None)
          \<and> (\<exists>message. dataToBytes P data = Inr message)
          \<and> MLDSASigner_sigBytes P signature = Inr (Some sigBytes)
        \<longrightarrow> MLDSASigner_verify P ms data signature publicKey
              = Inr (MLDSASigner_size_check ms sigBytes = Inr True))"
  using mldsa_verify_body_malformed[of P data signature ms publicKey]
        mldsa_verify_size_only[of ms P data _ signature sigBytes publicKey]
  by (auto simp add: ecdsa_verify_total mldsa_verify_total)

theorem C8_verify_never_throws_witness:
  "(\<exists>e. dataToBytes stub_prims (JNum 5) = Inl e)
   \<and> (\<exists>e. ECDSASigner_verify_body stub_prims mock_ecdsa_signer (JNum 5) JNull JNull = Inl e)
   \<and> ECDSASigner_verify stub_prims mock_ecdsa_signer (JNum 5) JNull JNull = Inr False
   \<and> MLDSASigner_verify stub_prims mock_signer (JNum 5) JNull JNull = Inr False
   \<and> \<not> ms_hasRealImplementation mock_signer
   \<and> dataToBytes stub_prims (JStr ''hi'') = Inr (utf8ToBytes ''hi'')
   \<and> MLDSASigner_sigBytes stub_prims (JBytes (replicate 3293 0)) = Inr (Some (JBytes (replicate 3293 0)))
   \<and> MLDSASigner_verify stub_prims mock_signer (JStr ''hi'') (JBytes (replicate 3293 0)) JNull = Inr True"
proof -
  have d: "dataToBytes stub_prims (JNum 5) = Inl (Error ''Unsupported data type for signing'')"
    by (simp add: dataToBytes_def)
  have b: "ECDSASigner_verify_body stub_prims mock_ecdsa_signer (JNum 5) JNull JNull
             = Inl (Error ''Unsupported data type for signing'')"
    by (simp add: ECDSASigner_verify_body_def ECDSASigner_verify_messageHash_def d)
  have s: "MLDSASigner_sigBytes stub_prims (JBytes (replicate 3293 0))
             = Inr (Some (JBytes (replicate 3293 0)))"
    by (simp add: MLDSASigner_sigBytes_def)
  have c: "MLDSASigner_size_check mock_signer (JBytes (replicate 3293 0)) = Inr True"
    by (simp add: MLDSASigner_size_check_def mock_signer_simps)
  note t1 = C8_verify_never_throws[of stub_prims mock_ecdsa_signer "JNum 5" JNull JNull mock_signer]
  note t2 = C8_verify_never_throws[of stub_prims mock_ecdsa_signer "JStr ''hi''" "JBytes (replicate 3293 0)" JNull
               mock_signer "JBytes (replicate 3293 0)"]
  from t1 d b have 1: "ECDSASigner_verify stub_prims mock_ecdsa_signer (JNum 5) JNull JNull = Inr False"
    by blast
  from t1 d have 2: "MLDSASigner_verify stub_prims mock_signer (JNum 5) JNull JNull = Inr False"
    by blast
  from t2 s stub_dataToBytes c mock_signer_simps(1)
  have 3: "MLDSASigner_verify stub_prims mock_signer (JStr ''hi'') (JBytes (replicate 3293 0)) JNull
             = Inr True"
    by simp
  from d b 1 2 3 s stub_dataToBytes mock_signer_simps(1) show ?thesis by simp
qed

subsection \<open>Dual signing and disabled algorithms\<close>

lemma init_ecdsa_config: "p_config (snd (init_ecdsa P c a i p)) = p_config p"
  by (simp add: init_ecdsa_def split: option.splits prod.splits sum.splits)

lemma init_mldsa_config: "p_config (snd (init_mldsa P c a i p)) = p_config p"
  by (simp add: init_mldsa_def split: option.splits prod.splits sum.splits)

lemma initialize_body_config: "p_config (snd (initialize_body P p)) = p_config p"
proof -
  have 1: "p_config q' = p_config q" if "init_ecdsa P c a i q = (r, q')" for c a i q r q'
    using init_ecdsa_config[of P c a i q] that by simp
  have 2: "p_config q' = p_config q" if "init_mldsa P c a i q = (r, q')" for c a i q r q'
    using init_mldsa_config[of P c a i q] that by simp
  show ?thesis
    by (auto simp add: initialize_body_def Let_def dest!: 1 2
          split: option.splits prod.splits sum.splits)
qed

lemma protocol_initialize_config: "p_config (snd (protocol_initialize P p)) = p_config p"
proof (cases "initialize_body P p")
  case (Pair r q)
  with initialize_body_config[of P p] show ?thesis
    by (cases r) (simp_all add: protocol_initialize_def)
qed

lemma ensureInitialized_config: "p_config (snd (ensureInitialized P p)) = p_config p"
  by (simp add: ensureInitialized_def protocol_initialize_config split: option.splits)

lemma ensureInitialized_initialized:
  "ensureInitialized P p = (Inr u, p') \<Longrightarrow> p_initialized p'"
  by (auto simp add: ensureInitialized_def protocol_initialize_def initialize_body_def Let_def
        split: option.splits prod.splits sum.splits if_splits)

lemma ensureInitialized_ready: "p_initialized p \<Longrightarrow> ensureInitialized P p = (Inr (), p)"
  by (simp add: ensureInitialized_def)

lemma signWithECDSA_ready:
  "p_initialized p \<Longrightarrow>
     signWithECDSA P p data options
       = ((case enabled_ecdsaSigner p of
             Inl e \<Rightarrow> Inl e
           | Inr signer \<Rightarrow> ECDSASigner_sign P signer data options), p)"
  by (simp add: signWithECDSA_def after_ensureInitialized_def ensureInitialized_ready)

lemma signWithMLDSA_ready:
  "p_initialized p \<Longrightarrow>
     signWithMLDSA P p now data options
       = ((case enabled_mldsaSigner p of
             Inl e \<Rightarrow> Inl e
           | Inr signer \<Rightarrow> MLDSASigner_sign P signer now data options), p)"
  by (simp add: signWithMLDSA_def after_ensureInitialized_def ensureInitialized_ready)

lemma dualSign_Inr:
  assumes "dualSign P p ns n data options = (Inr r, p')"
  shows "\<exists>c. p_config p = Some c
           \<and> (ds_ecdsa r = None \<longleftrightarrow> \<not> cfg_ecdsaEnabled c)
           \<and> (ds_mldsa r = None \<longleftrightarrow> \<not> cfg_mldsaEnabled c)"
proof -
  obtain o1 p1 where e: "ensureInitialized P p = (o1, p1)" by (cases "ensureInitialized P p")
  with assms obtain u where o1: "o1 = Inr u" by (cases o1) (simp_all add: dualSign_def)
  from e o1 have i: "p_initialized p1" by (simp add: ensureInitialized_initialized)
  from assms e o1 obtain c where c: "p_config p1 = Some c"
    by (cases "p_config p1") (simp_all add: dualSign_def)
  from ensureInitialized_config[of P p] e c have pc: "p_config p = Some c" by simp
  from assms e o1 c i
  have "(ds_ecdsa r = None \<longleftrightarrow> \<not> cfg_ecdsaEnabled c)
           \<and> (ds_mldsa r = None \<longleftrightarrow> \<not> cfg_mldsaEnabled c)"
    by (auto simp add: dualSign_def Let_def signWithECDSA_ready signWithMLDSA_ready
          split: sum.splits if_splits)
  with pc show ?thesis by simp
qed

lemma signWithMLDSA_disabled:
  assumes "p_config p = Some c" and "\<not> cfg_mldsaEnabled c"
  shows "fst (signWithMLDSA P p now data options)
           = (case fst (ensureInitialized P p) of
                Inl e \<Rightarrow> Inl e
              | Inr u \<Rightarrow> Inl (Error ''ML-DSA signing is not enabled''))"
proof -
  obtain o1 p1 where e: "ensureInitialized P p = (o1, p1)" by (cases "ensureInitialized P p")
  from ensureInitialized_config[of P p] e assms(1) have c: "p_config p1 = Some c" by simp
  show ?thesis
    using e c assms(2)
    by (cases o1) (simp_all add: signWithMLDSA_def after_ensureInitialized_def
                     enabled_mldsaSigner_def)
qed

text \<open>
  Claim C4, amended. Whenever \<^verbatim>\<open>dualSign\<close> returns a result, its classical branch is
  \<^verbatim>\<open>null\<close> exactly when the classical algorithm is disabled in the configuration and its
  post-quantum branch is \<^verbatim>\<open>null\<close> exactly when the post-quantum algorithm is disabled:
  a failure of an enabled branch rejects the whole call. With the post-quantum
  algorithm disabled, a direct \<^verbatim>\<open>signWithMLDSA\<close> call always throws: the
  disabled-algorithm error when the protocol is initialized or initializes on this
  call, and otherwise the error of the initialization check, which runs first.
\<close>

theorem C4_null_branch_iff_disabled:
  "(dualSign P p now_sign now data options = (Inr r, p') \<longrightarrow>
      (\<exists>c. p_config p = Some c
          \<and> (ds_ecdsa r = None \<longleftrightarrow> \<not> cfg_ecdsaEnabled c)
          \<and> (ds_mldsa r = None \<longleftrightarrow> \<not> cfg_mldsaEnabled c)))
   \<and> (p_config p = Some c \<and> \<not> cfg_mldsaEnabled c \<longrightarrow>
        (\<exists>e. fst (signWithMLDSA P p t data options) = Inl e)
        \<and> (fst (ensureInitialized P p) = Inr ()
             \<longrightarrow> fst (signWithMLDSA P p t data options)
                   = Inl (Error ''ML-DSA signing is not enabled''))
        \<and> (\<forall>e. fst (ensureInitialized P p) = Inl e
             \<longrightarrow> fst (signWithMLDSA P p t data options) = Inl e))"
proof -
  have a: "dualSign P p now_sign now data options = (Inr r, p') \<longrightarrow>
      (\<exists>c. p_config p = Some c
          \<and> (ds_ecdsa r = None \<longleftrightarrow> \<not> cfg_ecdsaEnabled c)
          \<and> (ds_mldsa r = None \<longleftrightarrow> \<not> cfg_mldsaEnabled c))"
    using dualSign_Inr[of P p now_sign now data options r p'] by blast
  have b: "(\<exists>e. fst (signWithMLDSA P p t data options) = Inl e)
        \<and> (fst (ensureInitialized P p) = Inr ()
             \<longrightarrow> fst (signWithMLDSA P p t data options)
                   = Inl (Error ''ML-DSA signing is not enabled''))
        \<and> (\<forall>e. fst (ensureInitialized P p) = Inl e
             \<longrightarrow> fst (signWithMLDSA P p t data options) = Inl e)"
    if "p_config p = Some c" "\<not> cfg_mldsaEnabled c"
    using signWithMLDSA_disabled[OF that, of P t data options]
    by (cases "fst (ensureInitialized P p)") simp_all
  from a b show ?thesis by blast
qed

lemma mock_protocol_config:
  "p_config (mock_protocol ecdsa_only)
     = Some \<lparr>cfg_ecdsaEnabled = True, cfg_mldsaEnabled = False,
             cfg_defaultSignatureType = ''ecdsa'', cfg_mldsaAlgorithm = ''ML-DSA-65'',
             cfg_autoInitialize = True, cfg_seed = JUndefined, cfg_accountIndex = None,
             cfg_addressIndex = None\<rparr>"
  "p_initialized (mock_protocol ecdsa_only) = False"
  by (simp_all add: mock_protocol_def DualSignatureProtocol_new_def ecdsa_only_def
        default_config_def)

lemma mock_ensureInitialized:
  "ensureInitialized stub_prims (mock_protocol ecdsa_only)
     = DualSignatureProtocol_initialize stub_prims (mock_protocol ecdsa_only)"
  by (simp add: ensureInitialized_def mock_protocol_config DualSignatureProtocol_initialize_def)

lemma mock_dualSign:
  "\<exists>sg p'. dualSign stub_prims (mock_protocol ecdsa_only) 1 2 (JStr ''hi'') no_options
       = (Inr \<lparr>ds_ecdsa = Some sg, ds_mldsa = None, ds_data = JStr ''hi'', ds_timestamp = 2,
               ds_accountIndex = Some 0, ds_addressIndex = Some 0\<rparr>, p')"
proof -
  from stub_sign obtain sg where
    sg: "ECDSASigner_sign stub_prims mock_ecdsa_signer (JStr ''hi'') no_options = Inr sg" ..
  have "dualSign stub_prims (mock_protocol ecdsa_only) 1 2 (JStr ''hi'') no_options
       = (Inr \<lparr>ds_ecdsa = Some sg, ds_mldsa = None, ds_data = JStr ''hi'', ds_timestamp = 2,
               ds_accountIndex = Some 0, ds_addressIndex = Some 0\<rparr>,
          snd (DualSignatureProtocol_initialize stub_prims (mock_protocol ecdsa_only)))"
    using sg
    by (simp add: dualSign_def mock_ensureInitialized mock_ready mock_protocol_config
          signWithECDSA_ready enabled_ecdsaSigner_def mock_ecdsa_signer_def Let_def)
  then show ?thesis by blast
qed

theorem C4_null_branch_iff_disabled_witness:
  "(\<exists>sg p'. dualSign stub_prims (mock_protocol ecdsa_only) 1 2 (JStr ''hi'') no_options
       = (Inr \<lparr>ds_ecdsa = Some sg, ds_mldsa = None, ds_data = JStr ''hi'', ds_timestamp = 2,
               ds_accountIndex = Some 0, ds_addressIndex = Some 0\<rparr>, p'))
   \<and> (\<exists>c. p_config (mock_protocol ecdsa_only) = Some c \<and> cfg_ecdsaEnabled c
          \<and> \<not> cfg_mldsaEnabled c)
   \<and> fst (ensureInitialized stub_prims (mock_protocol ecdsa_only)) = Inr ()
   \<and> fst (signWithMLDSA stub_prims (mock_protocol ecdsa_only) 1 (JStr ''hi'') no_options)
       = Inl (Error ''ML-DSA signing is not enabled'')"
proof -
  have e: "fst (ensureInitialized stub_prims (mock_protocol ecdsa_only)) = Inr ()"
    by (simp add: mock_ensureInitialized mock_ready)
  from C4_null_branch_iff_disabled[where P = stub_prims and p = "mock_protocol ecdsa_only" and t = 1
             and data = "JStr ''hi''" and options = no_options
             and c = "the (p_config (mock_protocol ecdsa_only))"]
       mock_protocol_config(1) e
  have "fst (signWithMLDSA stub_prims (mock_protocol ecdsa_only) 1 (JStr ''hi'') no_options)
       = Inl (Error ''ML-DSA signing is not enabled'')"
    by simp
  with mock_dualSign mock_protocol_config(1) e show ?thesis by simp
qed

text \<open>
  Claim C4 as stated fails in its last part: with the post-quantum algorithm disabled
  and auto-initialization off, \<^verbatim>\<open>signWithMLDSA\<close> on a protocol that was not initialized
  throws the not-initialized error, not the disabled-algorithm error.
\<close>

theorem C4_disabled_call_not_initialized:
  "(\<exists>c. p_config (mock_protocol manual_ecdsa_only) = Some c \<and> \<not> cfg_mldsaEnabled c)
   \<and> fst (signWithMLDSA stub_prims (mock_protocol manual_ecdsa_only) 1 (JStr ''hi'') no_options)
       = Inl (Error ''DualSignatureProtocol not initialized. Call initialize() first.'')
   \<and> fst (signWithMLDSA stub_prims (mock_protocol manual_ecdsa_only) 1 (JStr ''hi'') no_options)
       \<noteq> Inl (Error ''ML-DSA signing is not enabled'')"
  by (simp add: signWithMLDSA_def after_ensureInitialized_def ensureInitialized_def
        mock_protocol_def DualSignatureProtocol_new_def manual_ecdsa_only_def ecdsa_only_def
        default_config_def)

end
